theory Spec2Isabelle
  imports Complex_Main "HOL-Library.Stream" "HOL-Library.Sublist"
begin

section \<open>Data model (src/types/index.ts)\<close>

text \<open>
  A JavaScript string is modelled as a \<^typ>\<open>string\<close>: one \<^typ>\<open>char\<close> per code unit, so that
  \<open>length\<close> is \<^verbatim>\<open>.length\<close> and \<open>take n\<close> is \<^verbatim>\<open>.substring(0, n)\<close>. An embedding
  \<^verbatim>\<open>number[]\<close> is a list of numbers that the program only passes on.
\<close>

type_synonym vector = "real list"

record Article =
  title :: string
  content :: string
  url :: string
  date :: string

text \<open>\<^verbatim>\<open>Source.content\<close> is optional in the source: \<open>None\<close> is an object without the field.\<close>

record Source =
  src_title :: string
  src_url :: string
  src_date :: string
  src_content :: "string option"

record QueryPayload =
  query :: string

record ApiResponse =
  answer :: string
  sources :: "Source list"

section \<open>Exceptions\<close>

text \<open>
  A thrown value is an \<^verbatim>\<open>Error\<close> with its message, or some other value, kept as the
  text \<^verbatim>\<open>String(value)\<close>. A computation that may throw returns \<open>thrown + 'a\<close>.
\<close>

datatype thrown = Error string | NonError string

text \<open>\<^verbatim>\<open>e instanceof Error ? e.message : String(e)\<close>\<close>

fun error_message :: "thrown \<Rightarrow> string" where
  "error_message (Error m) = m"
| "error_message (NonError s) = s"

text \<open>\<^verbatim>\<open>e instanceof Error ? e.message : 'Unknown error'\<close>\<close>

fun message_or_unknown :: "thrown \<Rightarrow> string" where
  "message_or_unknown (Error m) = m"
| "message_or_unknown (NonError s) = ''Unknown error''"

section \<open>The platform and the external services\<close>

text \<open>
  The pure platform functions the code calls are parameters: the protocol that
  \<^verbatim>\<open>new URL(s)\<close> parses (\<open>None\<close> when the constructor throws), and \<^verbatim>\<open>JSON.parse\<close> on
  the two kinds of text the program parses.
\<close>

datatype json_article = JsonNull | JsonObject "string option" "string option" "string option"

datatype envelope = Envelope "string option" "string option"

record env =
  url_protocol :: "string \<Rightarrow> string option"
  json_parse_article :: "string \<Rightarrow> thrown + json_article"
  json_parse_envelope :: "string \<Rightarrow> envelope option"

text \<open>
  \<open>JsonObject t c d\<close> is a parsed value other than \<^verbatim>\<open>null\<close>, with what its properties
  \<^verbatim>\<open>title\<close>, \<^verbatim>\<open>content\<close> and \<^verbatim>\<open>date\<close> hold (\<open>None\<close> for \<^verbatim>\<open>undefined\<close>).
  \<open>Envelope v u\<close> is a parsed message with \<^verbatim>\<open>.value.url\<close> and \<^verbatim>\<open>.url\<close>; the parse of a
  message is \<open>None\<close> when \<^verbatim>\<open>JSON.parse\<close> throws or yields \<^verbatim>\<open>null\<close>, the two cases in which
  the inner \<^verbatim>\<open>catch\<close> of the consumer runs.
\<close>

text \<open>
  The text-generation requests. The prompts are fixed templates; a request is kept as
  the template and the values spliced into it.
\<close>

datatype prompt =
  StructurePrompt string
| SummaryPrompt string string string string
| GroundingPrompt string "(string \<times> string \<times> string \<times> string) list"

record match =
  match_id :: string
  match_metadata :: "Article option"

datatype event =
  HttpFetch string
| GenerateContent prompt
| EmbedContent string
| IndexFetch string
| IndexUpsert string vector Article
| IndexQuery vector nat
| SetTimeout nat

text \<open>
  The world outside the process. Every external capability answers its calls from a
  stream of responses, one per call, so that any sequence of successes and failures can
  be written down; \<open>index\<close> holds the records of the vector index, \<open>pineconeClient\<close>
  tells whether the module variable of that name is set, and \<open>events\<close> logs the external
  calls in order.
\<close>

record world =
  pineconeClient :: bool
  index :: "string \<rightharpoonup> vector \<times> Article"
  http :: "(string \<Rightarrow> thrown + bool \<times> (thrown + string)) stream"
  textModel :: "(prompt \<Rightarrow> thrown + string) stream"
  embedModel :: "(string \<Rightarrow> thrown + vector option) stream"
  index_fetch_faults :: "thrown option stream"
  index_upsert_faults :: "thrown option stream"
  index_query_responses :: "(vector \<Rightarrow> nat \<Rightarrow> thrown + match list option) stream"
  events :: "event list"

text \<open>\<^verbatim>\<open>fetch(url, ...)\<close>: the response's \<^verbatim>\<open>ok\<close> flag and what \<^verbatim>\<open>response.text()\<close> gives.\<close>

definition http_fetch :: "string \<Rightarrow> world \<Rightarrow> (thrown + bool \<times> (thrown + string)) \<times> world" where
  "http_fetch u w =
     (shd (http w) u, w\<lparr>http := stl (http w), events := events w @ [HttpFetch u]\<rparr>)"

text \<open>\<^verbatim>\<open>textModel.generateContent(p)\<close> followed by \<^verbatim>\<open>result.response.text()\<close>.\<close>

definition generateContent :: "prompt \<Rightarrow> world \<Rightarrow> (thrown + string) \<times> world" where
  "generateContent p w =
     (shd (textModel w) p, w\<lparr>textModel := stl (textModel w), events := events w @ [GenerateContent p]\<rparr>)"

text \<open>\<^verbatim>\<open>embedModel.embedContent(t)\<close> followed by \<^verbatim>\<open>.embedding.values\<close>.\<close>

definition embedContent :: "string \<Rightarrow> world \<Rightarrow> (thrown + vector option) \<times> world" where
  "embedContent t w =
     (shd (embedModel w) t, w\<lparr>embedModel := stl (embedModel w), events := events w @ [EmbedContent t]\<rparr>)"

text \<open>\<^verbatim>\<open>index.fetch([id])\<close>: the records found under the id, unless the call fails.\<close>

definition index_fetch :: "string \<Rightarrow> world \<Rightarrow> (thrown + (vector \<times> Article) list) \<times> world" where
  "index_fetch i w =
     (case shd (index_fetch_faults w) of
        Some e \<Rightarrow> Inl e
      | None \<Rightarrow> Inr (case index w i of None \<Rightarrow> [] | Some r \<Rightarrow> [r]),
      w\<lparr>index_fetch_faults := stl (index_fetch_faults w), events := events w @ [IndexFetch i]\<rparr>)"

text \<open>\<^verbatim>\<open>index.upsert([record])\<close>: writes the record under its id, replacing what was there,
  unless the call fails.\<close>

definition index_upsert :: "string \<Rightarrow> vector \<Rightarrow> Article \<Rightarrow> world \<Rightarrow> (thrown + unit) \<times> world" where
  "index_upsert i v m w =
     (case shd (index_upsert_faults w) of
        Some e \<Rightarrow>
          (Inl e, w\<lparr>index_upsert_faults := stl (index_upsert_faults w),
                    events := events w @ [IndexUpsert i v m]\<rparr>)
      | None \<Rightarrow>
          (Inr (), w\<lparr>index := (index w)(i \<mapsto> (v, m)),
                     index_upsert_faults := stl (index_upsert_faults w),
                     events := events w @ [IndexUpsert i v m]\<rparr>))"

text \<open>\<^verbatim>\<open>index.query({vector, topK, includeMetadata: true})\<close>, giving \<^verbatim>\<open>.matches\<close>.\<close>

definition index_query :: "vector \<Rightarrow> nat \<Rightarrow> world \<Rightarrow> (thrown + match list option) \<times> world" where
  "index_query v k w =
     (shd (index_query_responses w) v k,
      w\<lparr>index_query_responses := stl (index_query_responses w), events := events w @ [IndexQuery v k]\<rparr>)"

text \<open>\<^verbatim>\<open>await new Promise(resolve => setTimeout(resolve, delay))\<close>\<close>

definition setTimeout :: "nat \<Rightarrow> world \<Rightarrow> world" where
  "setTimeout delay w = w\<lparr>events := events w @ [SetTimeout delay]\<rparr>"

section \<open>src/utils/helpers.ts\<close>

definition isValidUrl :: "env \<Rightarrow> string \<Rightarrow> bool" where
  "isValidUrl e u =
     (if u = [] then False
      else case url_protocol e u of
             None \<Rightarrow> False
           | Some protocol \<Rightarrow> protocol = ''http:'' \<or> protocol = ''https:'')"

definition truncateString :: "string \<Rightarrow> nat \<Rightarrow> string" where
  "truncateString str maxLength =
     (if str = [] \<or> length str \<le> maxLength then str else take maxLength str @ ''...'')"

section \<open>geminiService (second part of src/processing/contentProcessor.ts)\<close>

definition generateText :: "prompt \<Rightarrow> world \<Rightarrow> (thrown + string) \<times> world" where
  "generateText p w =
     (case generateContent p w of
        (Inr text, w') \<Rightarrow> (Inr text, w')
      | (Inl error, w') \<Rightarrow>
          (Inl (Error (''Gemini text generation failed: '' @ message_or_unknown error)), w'))"

definition MAX_HTML_LENGTH :: nat where
  "MAX_HTML_LENGTH = 120000"

text \<open>\<^verbatim>\<open>x || d\<close> on a string property that may be undefined.\<close>

fun or_default :: "string option \<Rightarrow> string \<Rightarrow> string" where
  "or_default None d = d"
| "or_default (Some s) d = (if s = [] then d else s)"

definition cleanAndStructureHtml :: "env \<Rightarrow> string \<Rightarrow> string \<Rightarrow> world \<Rightarrow> Article option \<times> world" where
  "cleanAndStructureHtml e htmlContent u w =
     (let truncatedHtml =
            (if length htmlContent > MAX_HTML_LENGTH then take MAX_HTML_LENGTH htmlContent
             else htmlContent)
      in case generateContent (StructurePrompt truncatedHtml) w of
           (Inl error, w') \<Rightarrow> (None, w')
         | (Inr responseText, w') \<Rightarrow>
             if responseText = [] then (None, w')
             else (case json_parse_article e responseText of
                     Inl parseError \<Rightarrow> (None, w')
                   | Inr JsonNull \<Rightarrow> (None, w')
                   | Inr (JsonObject t c d) \<Rightarrow>
                       (Some \<lparr>title = or_default t ''Untitled Article'',
                              content = or_default c [],
                              url = u,
                              date = or_default d []\<rparr>, w')))"

definition MAX_EMBED_TEXT_LENGTH :: nat where
  "MAX_EMBED_TEXT_LENGTH = 12000"

definition generateEmbeddings :: "string \<Rightarrow> world \<Rightarrow> (thrown + vector) \<times> world" where
  "generateEmbeddings text w =
     (let truncatedText =
            (if length text > MAX_EMBED_TEXT_LENGTH then take MAX_EMBED_TEXT_LENGTH text else text)
      in case embedContent truncatedText w of
           (Inr (Some embedding), w') \<Rightarrow> (Inr embedding, w')
         | (Inr None, w') \<Rightarrow>
             (Inl (Error (''Gemini embedding generation failed: '' @
                message_or_unknown
                  (Error ''Gemini embedding API returned success but no embedding values.''))), w')
         | (Inl error, w') \<Rightarrow>
             (Inl (Error (''Gemini embedding generation failed: '' @ message_or_unknown error)), w'))"

section \<open>src/processing/contentProcessor.ts\<close>

definition fetchUrlContent :: "string \<Rightarrow> world \<Rightarrow> string option \<times> world" where
  "fetchUrlContent u w =
     (case http_fetch u w of
        (Inl error, w') \<Rightarrow> (None, w')
      | (Inr (ok, body), w') \<Rightarrow>
          if \<not> ok then (None, w')
          else (case body of Inl error \<Rightarrow> (None, w') | Inr html \<Rightarrow> (Some html, w')))"

text \<open>The body of the \<^verbatim>\<open>try\<close> block of \<^verbatim>\<open>processUrl\<close>.\<close>

definition processUrl_try :: "env \<Rightarrow> string \<Rightarrow> world \<Rightarrow> (thrown + (Article \<times> vector) option) \<times> world" where
  "processUrl_try e u w =
     (if u = [] \<or> \<not> isValidUrl e u then (Inr None, w)
      else case fetchUrlContent u w of
             (None, w1) \<Rightarrow> (Inr None, w1)
           | (Some htmlContent, w1) \<Rightarrow>
               if htmlContent = [] then (Inr None, w1)
               else (case cleanAndStructureHtml e htmlContent u w1 of
                       (None, w2) \<Rightarrow> (Inr None, w2)
                     | (Some article, w2) \<Rightarrow>
                         (let contentForEmbedding =
                                title article @ ''. '' @ take 8000 (content article)
                          in case generateEmbeddings contentForEmbedding w2 of
                               (Inl error, w3) \<Rightarrow> (Inl error, w3)
                             | (Inr vector, w3) \<Rightarrow> (Inr (Some (article, vector)), w3))))"

text \<open>\<^verbatim>\<open>processUrl\<close>: the \<^verbatim>\<open>catch\<close> clause logs and returns \<^verbatim>\<open>null\<close>.\<close>

definition processUrl :: "env \<Rightarrow> string \<Rightarrow> world \<Rightarrow> (Article \<times> vector) option \<times> world" where
  "processUrl e u w =
     (case processUrl_try e u w of
        (Inr result, w') \<Rightarrow> (result, w')
      | (Inl error, w') \<Rightarrow> (None, w'))"

section \<open>src/services/pineconeService.ts\<close>

definition vectorExists :: "string \<Rightarrow> world \<Rightarrow> (thrown + bool) \<times> world" where
  "vectorExists i w =
     (if \<not> pineconeClient w
      then (Inl (Error ''Pinecone client not initialized. Call initializePinecone() first.''), w)
      else case index_fetch i w of
             (Inr records, w') \<Rightarrow> (Inr (records \<noteq> []), w')
           | (Inl error, w') \<Rightarrow> (Inr False, w'))"

definition MAX_RETRIES :: nat where
  "MAX_RETRIES = 2"

text \<open>
  The \<^verbatim>\<open>while (retryCount <= MAX_RETRIES)\<close> loop of \<^verbatim>\<open>upsertVector\<close>, on the loop
  variables \<open>retryCount\<close> and \<open>lastError\<close>. \<open>Inr ()\<close> is the \<^verbatim>\<open>return\<close> inside the loop;
  \<open>Inl lastError\<close> is leaving the loop, by \<^verbatim>\<open>break\<close> or by the loop condition.
\<close>

function upsert_loop ::
  "string \<Rightarrow> vector \<Rightarrow> Article \<Rightarrow> nat \<Rightarrow> thrown option \<Rightarrow> world \<Rightarrow> (thrown option + unit) \<times> world" where
  "upsert_loop i v m retryCount lastError w =
     (if retryCount \<le> MAX_RETRIES then
        (case index_upsert i v m w of
           (Inr u, w') \<Rightarrow> (Inr (), w')
         | (Inl error, w') \<Rightarrow>
             if retryCount + 1 \<le> MAX_RETRIES
             then upsert_loop i v m (retryCount + 1) (Some error)
                    (setTimeout (2 ^ (retryCount + 1) * 1000) w')
             else (Inl (Some error), w'))
      else (Inl lastError, w))"
  by pat_completeness auto
termination
  by (relation "measure (\<lambda>(i, v, m, retryCount, lastError, w). MAX_RETRIES + 1 - retryCount)") auto

declare upsert_loop.simps [simp del]

text \<open>\<^verbatim>\<open>e instanceof Error ? e.message : String(e)\<close> on \<^verbatim>\<open>lastError\<close>, which starts as \<^verbatim>\<open>null\<close>.\<close>

fun last_error_message :: "thrown option \<Rightarrow> string" where
  "last_error_message None = ''null''"
| "last_error_message (Some e) = error_message e"

definition upsertVector :: "string \<Rightarrow> vector \<Rightarrow> Article \<Rightarrow> world \<Rightarrow> (thrown + unit) \<times> world" where
  "upsertVector i v metadata w =
     (if \<not> pineconeClient w
      then (Inl (Error ''Pinecone client not initialized. Call initializePinecone() first.''), w)
      else case vectorExists i w of
             (Inl error, w1) \<Rightarrow> (Inl error, w1)
           | (Inr exists, w1) \<Rightarrow>
               if exists then (Inr (), w1)
               else (case upsert_loop i v
                            \<lparr>title = title metadata, content = content metadata,
                             url = url metadata, date = date metadata\<rparr> 0 None w1 of
                       (Inr u, w2) \<Rightarrow> (Inr (), w2)
                     | (Inl lastError, w2) \<Rightarrow>
                         (Inl (Error (''Failed to upsert vector to Pinecone: '' @
                            last_error_message lastError)), w2)))"

text \<open>
  The similarity query keeps the matches that have metadata (\<^verbatim>\<open>.filter\<close>) and maps each
  to a \<^verbatim>\<open>Source\<close> (\<^verbatim>\<open>.map\<close>); \<open>List.map_filter\<close> does both.
\<close>

definition match_source :: "Article \<Rightarrow> Source" where
  "match_source metadata =
     \<lparr>src_title = (if title metadata = [] then ''Unknown Title'' else title metadata),
      src_url = url metadata,
      src_date = date metadata,
      src_content = Some (content metadata)\<rparr>"

definition querySimilarVectors :: "vector \<Rightarrow> nat \<Rightarrow> world \<Rightarrow> (thrown + Source list) \<times> world" where
  "querySimilarVectors v topK w =
     (if \<not> pineconeClient w then (Inl (Error ''Pinecone client not initialized.''), w)
      else case index_query v topK w of
             (Inl error, w') \<Rightarrow> (Inl (Error (''Pinecone query failed: '' @ error_message error)), w')
           | (Inr None, w') \<Rightarrow> (Inr [], w')
           | (Inr (Some matches), w') \<Rightarrow>
               if matches = [] then (Inr [], w')
               else (Inr (List.map_filter (\<lambda>ma. map_option match_source (match_metadata ma))
                            matches), w'))"

section \<open>src/ingestion/ingestionService.ts\<close>

text \<open>The inner \<^verbatim>\<open>try\<close> of \<^verbatim>\<open>handleUrlIngestion\<close>, around the write to the index.\<close>

definition store_try :: "string \<Rightarrow> vector \<Rightarrow> Article \<Rightarrow> world \<Rightarrow> (thrown + unit) \<times> world" where
  "store_try u vector article w =
     (case upsertVector u vector article w of
        (Inr x, w') \<Rightarrow> (Inr (), w')
      | (Inl storageError, w') \<Rightarrow>
          (Inl (Error (''Vector storage failed: '' @ error_message storageError)), w'))"

definition handleUrlIngestion :: "env \<Rightarrow> string \<Rightarrow> world \<Rightarrow> (thrown + unit) \<times> world" where
  "handleUrlIngestion e u w =
     (if u = [] \<or> \<not> isValidUrl e u then (Inr (), w)
      else case processUrl e u w of
             (None, w1) \<Rightarrow> (Inr (), w1)
           | (Some (article, vector), w1) \<Rightarrow>
               (case store_try u vector article w1 of
                  (Inr x, w2) \<Rightarrow> (Inr (), w2)
                | (Inl processingError, w2) \<Rightarrow>
                    (Inl (Error (''URL processing failed: '' @ error_message processingError)), w2)))"

section \<open>src/ingestion/kafkaConsumer.ts\<close>

text \<open>
  \<^verbatim>\<open>recentlyProcessedUrls\<close> is a \<^verbatim>\<open>Set<string>\<close>: its elements in insertion order, without
  repetition. The consumer's state is the cache and the world.
\<close>

definition MAX_CACHE_SIZE :: nat where
  "MAX_CACHE_SIZE = 1000"

definition cache_add :: "string \<Rightarrow> string list \<Rightarrow> string list" where
  "cache_add u cache = (if u \<in> set cache then cache else cache @ [u])"

text \<open>The URL of a message: \<^verbatim>\<open>.value.url\<close>, else \<^verbatim>\<open>.url\<close>, else the raw text.\<close>

definition message_url :: "env \<Rightarrow> string \<Rightarrow> string" where
  "message_url e messageStr =
     (case json_parse_envelope e messageStr of
        None \<Rightarrow> messageStr
      | Some (Envelope value_url top_url) \<Rightarrow> or_default value_url (or_default top_url messageStr))"

text \<open>\<^verbatim>\<open>handleKafkaMessage\<close> on \<^verbatim>\<open>message.value\<close> (\<open>None\<close> for a message without value).\<close>

definition handleKafkaMessage ::
  "env \<Rightarrow> string option \<Rightarrow> string list \<times> world \<Rightarrow> string list \<times> world" where
  "handleKafkaMessage e message_value st =
     (case st of (cache, w) \<Rightarrow>
        (case message_value of
           None \<Rightarrow> (cache, w)
         | Some messageStr \<Rightarrow>
             (let u = message_url e messageStr
              in if u \<in> set cache then (cache, w)
                 else (case handleUrlIngestion e u w of
                         (Inl error, w') \<Rightarrow> (cache, w')
                       | (Inr x, w') \<Rightarrow>
                           (let cache' = cache_add u cache
                            in (if length cache' > MAX_CACHE_SIZE then [] else cache', w'))))))"

text \<open>The consumer handling a sequence of messages, one after the other.\<close>

definition deliver :: "env \<Rightarrow> string option list \<Rightarrow> string list \<times> world \<Rightarrow> string list \<times> world" where
  "deliver e messages st = foldl (\<lambda>st message_value. handleKafkaMessage e message_value st) st messages"

text \<open>The \<^verbatim>\<open>setInterval\<close> callback, run every \<^verbatim>\<open>CACHE_EXPIRY_MS\<close>.\<close>

definition cache_expiry :: "string list \<times> world \<Rightarrow> string list \<times> world" where
  "cache_expiry st = (case st of (cache, w) \<Rightarrow> (if length cache > 0 then [] else cache, w))"

section \<open>src/services/ragService.ts\<close>

text \<open>\<^verbatim>\<open>({ title, url, date }) => ({ title, url, date })\<close>\<close>

definition cleaned :: "Source \<Rightarrow> Source" where
  "cleaned s = \<lparr>src_title = src_title s, src_url = src_url s, src_date = src_date s,
               src_content = None\<rparr>"

text \<open>
  The two prompts: the summary of an article (title, URL, \<^verbatim>\<open>date || 'Unknown'\<close>, content)
  and the question with its sources (for each: title, URL, \<^verbatim>\<open>date || 'Unknown'\<close>,
  \<^verbatim>\<open>content || 'Unknown'\<close>).
\<close>

definition summary_prompt :: "Article \<Rightarrow> prompt" where
  "summary_prompt article =
     SummaryPrompt (title article) (url article)
       (if date article = [] then ''Unknown'' else date article) (content article)"

definition grounding_prompt :: "string \<Rightarrow> Source list \<Rightarrow> prompt" where
  "grounding_prompt q srcs =
     GroundingPrompt q
       (map (\<lambda>s. (src_title s, src_url s,
                   if src_date s = [] then ''Unknown'' else src_date s,
                   or_default (src_content s) ''Unknown'')) srcs)"

definition handleUrlQuery :: "env \<Rightarrow> string \<Rightarrow> world \<Rightarrow> ApiResponse \<times> world" where
  "handleUrlQuery e u w =
     (case processUrl e u w of
        (None, w1) \<Rightarrow>
          (\<lparr>answer = ''I couldn't process this URL. It may be inaccessible or doesn't contain extractable content.'',
            sources = []\<rparr>, w1)
      | (Some (article, vector), w1) \<Rightarrow>
          (case generateText (summary_prompt article) w1 of
             (Inr text, w2) \<Rightarrow>
               (\<lparr>answer = text,
                 sources = [\<lparr>src_title = title article, src_url = url article,
                             src_date = date article, src_content = None\<rparr>]\<rparr>, w2)
           | (Inl error, w2) \<Rightarrow>
               (\<lparr>answer = ''Encountered an error while processing this URL.'', sources = []\<rparr>, w2)))"

definition handleKnowledgeBaseQuery :: "string \<Rightarrow> world \<Rightarrow> ApiResponse \<times> world" where
  "handleKnowledgeBaseQuery q w =
     (case generateEmbeddings q w of
        (Inl embeddingError, w1) \<Rightarrow>
          (\<lparr>answer = ''encountered an error while processing your query.'', sources = []\<rparr>, w1)
      | (Inr queryVector, w1) \<Rightarrow>
          (case querySimilarVectors queryVector 1 w1 of
             (Inl searchError, w2) \<Rightarrow>
               (\<lparr>answer = ''couldn't search our knowledge base at the moment.'', sources = []\<rparr>, w2)
           | (Inr srcs, w2) \<Rightarrow>
               if srcs = [] then
                 (\<lparr>answer = ''No information related to the query in our knowledge base.'',
                   sources = []\<rparr>, w2)
               else
                 (case generateText (grounding_prompt q srcs) w2 of
                    (Inr text, w3) \<Rightarrow> (\<lparr>answer = text, sources = map cleaned srcs\<rparr>, w3)
                  | (Inl generationError, w3) \<Rightarrow>
                      (\<lparr>answer = ''Couldn't generate a response.'', sources = map cleaned srcs\<rparr>, w3))))"

text \<open>
  \<^verbatim>\<open>handleQuery\<close> with the two awaited handlers as parameters, so that its \<^verbatim>\<open>catch\<close>
  clause can be stated for a handler that throws. \<open>Inl\<close> in the result would be an
  exception leaving \<^verbatim>\<open>handleQuery\<close>.
\<close>

definition handleQueryWith ::
  "(string \<Rightarrow> world \<Rightarrow> (thrown + ApiResponse) \<times> world) \<Rightarrow>
   (string \<Rightarrow> world \<Rightarrow> (thrown + ApiResponse) \<times> world) \<Rightarrow>
   env \<Rightarrow> QueryPayload \<Rightarrow> world \<Rightarrow> (thrown + ApiResponse) \<times> world" where
  "handleQueryWith urlHandler knowledgeHandler e payload w =
     (let q = query payload;
          truncatedQuery = truncateString q 100;
          isUrl = isValidUrl e q
      in case (if isUrl then urlHandler q w else knowledgeHandler q w) of
           (Inr response, w') \<Rightarrow> (Inr response, w')
         | (Inl error, w') \<Rightarrow>
             (Inr \<lparr>answer = ''Sorry, I encountered an unexpected error while processing your request.'',
                   sources = []\<rparr>, w'))"

definition returned :: "'a \<times> world \<Rightarrow> (thrown + 'a) \<times> world" where
  "returned r = (case r of (x, w') \<Rightarrow> (Inr x, w'))"

definition handleQuery :: "env \<Rightarrow> QueryPayload \<Rightarrow> world \<Rightarrow> (thrown + ApiResponse) \<times> world" where
  "handleQuery e payload w =
     handleQueryWith (\<lambda>q w. returned (handleUrlQuery e q w))
                     (\<lambda>q w. returned (handleKnowledgeBaseQuery q w)) e payload w"

section \<open>An example platform and world\<close>

definition example_env :: env where
  "example_env =
     \<lparr>url_protocol = (\<lambda>s. if take 8 s = ''https://'' then Some ''https:''
                           else if take 7 s = ''http://'' then Some ''http:'' else None),
      json_parse_article = (\<lambda>s. Inr (JsonObject (Some ''A'') (Some ''B'') (Some ''2024-01-01''))),
      json_parse_envelope = (\<lambda>s. None)\<rparr>"

definition example_world :: world where
  "example_world =
     \<lparr>pineconeClient = True,
      index = Map.empty,
      http = sconst (\<lambda>u. Inr (True, Inr ''<html>B</html>'')),
      textModel = sconst (\<lambda>p. Inr ''text''),
      embedModel = sconst (\<lambda>t. Inr (Some [1, 0])),
      index_fetch_faults = sconst None,
      index_upsert_faults = sconst None,
      index_query_responses = sconst (\<lambda>v k. Inr (Some [])),
      events = []\<rparr>"

definition example_url :: string where
  "example_url = ''https://example.com/article''"

definition example_article :: Article where
  "example_article = \<lparr>title = ''A'', content = ''B'', url = example_url, date = ''2024-01-01''\<rparr>"

text \<open>A world whose first two writes fail, and one whose first three writes fail.\<close>

definition world_write_recovers :: world where
  "world_write_recovers =
     example_world\<lparr>index_upsert_faults :=
       Some (Error ''busy'') ## Some (Error ''busy again'') ## None ## sconst None\<rparr>"

definition world_write_fails :: world where
  "world_write_fails =
     example_world\<lparr>index_upsert_faults :=
       Some (Error ''busy'') ## Some (Error ''busy again'') ## Some (Error ''still busy'') ##
       sconst None\<rparr>"

text \<open>A world that already holds a record under the example URL, and the same world with a failing lookup.\<close>

definition stored_article :: Article where
  "stored_article = \<lparr>title = ''Old'', content = ''old text'', url = example_url, date = ''2023-12-31''\<rparr>"

definition world_lookup_fails :: world where
  "world_lookup_fails =
     example_world\<lparr>index := [example_url \<mapsto> ([1, 0], stored_article)],
                   index_fetch_faults := sconst (Some (Error ''timeout''))\<rparr>"

definition world_stored :: world where
  "world_stored = example_world\<lparr>index := [example_url \<mapsto> ([1, 0], stored_article)]\<rparr>"

text \<open>A world whose embedding service fails, and a platform whose structuring step yields a long article.\<close>

definition world_embed_fails :: world where
  "world_embed_fails = example_world\<lparr>embedModel := sconst (\<lambda>t. Inl (Error ''quota exceeded''))\<rparr>"

definition env_long_article :: env where
  "env_long_article =
     example_env\<lparr>json_parse_article :=
       (\<lambda>s. Inr (JsonObject (Some ''T'') (Some (replicate 8001 (CHR ''x''))) None))\<rparr>"

text \<open>
  Worlds for the query path: one whose similarity search finds the example article, the
  same with a failing text generation, one whose text generation fails after the
  structuring call, and a handler that throws.
\<close>

definition example_match :: match where
  "example_match = \<lparr>match_id = example_url, match_metadata = Some example_article\<rparr>"

definition world_match :: world where
  "world_match = example_world\<lparr>index_query_responses := sconst (\<lambda>v k. Inr (Some [example_match]))\<rparr>"

definition world_match_generation_fails :: world where
  "world_match_generation_fails =
     world_match\<lparr>textModel := sconst (\<lambda>p. Inl (Error ''overloaded''))\<rparr>"

definition world_generation_fails :: world where
  "world_generation_fails =
     example_world\<lparr>textModel := (\<lambda>p. Inr ''{}'') ## sconst (\<lambda>p. Inl (Error ''overloaded''))\<rparr>"

definition failing_handler :: "string \<Rightarrow> world \<Rightarrow> (thrown + ApiResponse) \<times> world" where
  "failing_handler q w = (Inl (Error ''unexpected''), w)"

text \<open>
  The calls that stand for the work of an ingestion: the fetch of the page, the
  embedding call, and the existence lookup that opens every \<^verbatim>\<open>upsertVector\<close>. The last
  world is one whose index rejects every write.
\<close>

fun is_fetch :: "event \<Rightarrow> bool" where
  "is_fetch (HttpFetch u) = True"
| "is_fetch ev = False"

fun is_embed :: "event \<Rightarrow> bool" where
  "is_embed (EmbedContent t) = True"
| "is_embed ev = False"

fun is_lookup :: "event \<Rightarrow> bool" where
  "is_lookup (IndexFetch i) = True"
| "is_lookup ev = False"

definition world_store_down :: world where
  "world_store_down = example_world\<lparr>index_upsert_faults := sconst (Some (Error ''down''))\<rparr>"

section \<open>Properties of the storage adapter\<close>

lemma article_eta [simp]:
  "\<lparr>title = title m, content = content m, url = url m, date = date m\<rparr> = (m::Article)"
  by simp

lemma vectorExists_frame:
  assumes "vectorExists i w = (r, w1)"
  shows "index w1 = index w" and "index_upsert_faults w1 = index_upsert_faults w"
    and "pineconeClient w1 = pineconeClient w"
  using assms by (auto simp: vectorExists_def index_fetch_def split: if_splits option.splits)

lemma vectorExists_client:
  "vectorExists i w = (Inr b, w1) \<Longrightarrow> pineconeClient w"
  by (auto simp: vectorExists_def split: if_splits)

lemma upsert_loop_ok_third:
  assumes "index_upsert_faults w = Some e1 ## Some e2 ## None ## rest"
  shows "upsert_loop i v m 0 None w =
           (Inr (), w\<lparr>index := (index w)(i \<mapsto> (v, m)), index_upsert_faults := rest,
                      events := events w @ [IndexUpsert i v m, SetTimeout 2000, IndexUpsert i v m,
                                            SetTimeout 4000, IndexUpsert i v m]\<rparr>)"
  using assms by (simp add: upsert_loop.simps index_upsert_def setTimeout_def MAX_RETRIES_def)

lemma upsert_loop_fail_three:
  assumes "index_upsert_faults w = Some e1 ## Some e2 ## Some e3 ## rest"
  shows "upsert_loop i v m 0 None w =
           (Inl (Some e3), w\<lparr>index_upsert_faults := rest,
                      events := events w @ [IndexUpsert i v m, SetTimeout 2000, IndexUpsert i v m,
                                            SetTimeout 4000, IndexUpsert i v m]\<rparr>)"
  using assms by (simp add: upsert_loop.simps index_upsert_def setTimeout_def MAX_RETRIES_def)

text \<open>
  Claim C4. Take an \<^verbatim>\<open>upsertVector\<close> call that reaches the write (the existence check
  says the id is absent). If the write fails on the first two attempts and succeeds on
  the third, the call returns normally and the record is stored; if the write fails on
  three attempts in a row, the call throws \<^verbatim>\<open>Failed to upsert vector to Pinecone: \<close>
  followed by the message of the third failure, and the index is as before. In both
  cases the log shows three writes, with a wait of 2000 ms before the second and of
  4000 ms before the third.
\<close>

theorem upsert_retry:
  assumes "vectorExists i w = (Inr False, w1)"
  shows "(index_upsert_faults w = Some e1 ## Some e2 ## None ## rest \<longrightarrow>
            fst (upsertVector i v m w) = Inr () \<and>
            index (snd (upsertVector i v m w)) = (index w)(i \<mapsto> (v, m)) \<and>
            events (snd (upsertVector i v m w)) =
              events w1 @ [IndexUpsert i v m, SetTimeout 2000, IndexUpsert i v m,
                           SetTimeout 4000, IndexUpsert i v m]) \<and>
         (index_upsert_faults w = Some e1 ## Some e2 ## Some e3 ## rest \<longrightarrow>
            fst (upsertVector i v m w) =
              Inl (Error (''Failed to upsert vector to Pinecone: '' @ error_message e3)) \<and>
            index (snd (upsertVector i v m w)) = index w \<and>
            events (snd (upsertVector i v m w)) =
              events w1 @ [IndexUpsert i v m, SetTimeout 2000, IndexUpsert i v m,
                           SetTimeout 4000, IndexUpsert i v m])"
proof -
  have client: "pineconeClient w"
    using assms by (rule vectorExists_client)
  have faults: "index_upsert_faults w1 = index_upsert_faults w" and idx: "index w1 = index w"
    using vectorExists_frame [OF assms] by simp_all
  show ?thesis
  proof (intro conjI impI)
    assume "index_upsert_faults w = Some e1 ## Some e2 ## None ## rest"
    then have "index_upsert_faults w1 = Some e1 ## Some e2 ## None ## rest"
      using faults by simp
    from upsert_loop_ok_third [OF this, of i v m]
    have up: "upsertVector i v m w =
                (Inr (), w1\<lparr>index := (index w1)(i \<mapsto> (v, m)), index_upsert_faults := rest,
                            events := events w1 @
                              [IndexUpsert i v m, SetTimeout 2000, IndexUpsert i v m,
                               SetTimeout 4000, IndexUpsert i v m]\<rparr>)"
      using client assms by (simp add: upsertVector_def)
    show "fst (upsertVector i v m w) = Inr ()"
      by (simp add: up)
    show "index (snd (upsertVector i v m w)) = (index w)(i \<mapsto> (v, m))"
      by (simp add: up idx)
    show "events (snd (upsertVector i v m w)) =
            events w1 @ [IndexUpsert i v m, SetTimeout 2000, IndexUpsert i v m,
                         SetTimeout 4000, IndexUpsert i v m]"
      by (simp add: up)
  next
    assume "index_upsert_faults w = Some e1 ## Some e2 ## Some e3 ## rest"
    then have "index_upsert_faults w1 = Some e1 ## Some e2 ## Some e3 ## rest"
      using faults by simp
    from upsert_loop_fail_three [OF this, of i v m]
    have up: "upsertVector i v m w =
                (Inl (Error (''Failed to upsert vector to Pinecone: '' @ error_message e3)),
                 w1\<lparr>index_upsert_faults := rest,
                    events := events w1 @
                      [IndexUpsert i v m, SetTimeout 2000, IndexUpsert i v m,
                       SetTimeout 4000, IndexUpsert i v m]\<rparr>)"
      using client assms by (simp add: upsertVector_def)
    show "fst (upsertVector i v m w) =
            Inl (Error (''Failed to upsert vector to Pinecone: '' @ error_message e3))"
      by (simp add: up)
    show "index (snd (upsertVector i v m w)) = index w"
      by (simp add: up idx)
    show "events (snd (upsertVector i v m w)) =
            events w1 @ [IndexUpsert i v m, SetTimeout 2000, IndexUpsert i v m,
                         SetTimeout 4000, IndexUpsert i v m]"
      by (simp add: up)
  qed
qed

theorem upsert_retry_witness:
  "fst (upsertVector example_url [1, 0] example_article world_write_recovers) = Inr () \<and>
   events (snd (upsertVector example_url [1, 0] example_article world_write_recovers)) =
     [IndexFetch example_url,
      IndexUpsert example_url [1, 0] example_article, SetTimeout 2000,
      IndexUpsert example_url [1, 0] example_article, SetTimeout 4000,
      IndexUpsert example_url [1, 0] example_article] \<and>
   fst (upsertVector example_url [1, 0] example_article world_write_fails) =
     Inl (Error ''Failed to upsert vector to Pinecone: still busy'')"
proof -
  have a: "vectorExists example_url world_write_recovers =
             (Inr False, world_write_recovers\<lparr>index_fetch_faults := sconst None,
                                             events := [IndexFetch example_url]\<rparr>)"
    by (simp add: vectorExists_def index_fetch_def world_write_recovers_def example_world_def)
  have b: "vectorExists example_url world_write_fails =
             (Inr False, world_write_fails\<lparr>index_fetch_faults := sconst None,
                                          events := [IndexFetch example_url]\<rparr>)"
    by (simp add: vectorExists_def index_fetch_def world_write_fails_def example_world_def)
  have fa: "index_upsert_faults world_write_recovers =
              Some (Error ''busy'') ## Some (Error ''busy again'') ## None ## sconst None"
    by (simp add: world_write_recovers_def)
  have fb: "index_upsert_faults world_write_fails =
              Some (Error ''busy'') ## Some (Error ''busy again'') ##
              Some (Error ''still busy'') ## sconst None"
    by (simp add: world_write_fails_def)
  show ?thesis
    using upsert_retry [OF a, of "Error ''busy''" "Error ''busy again''" "sconst None"
                          "[1, 0]" example_article "Error ''still busy''"]
          upsert_retry [OF b, of "Error ''busy''" "Error ''busy again''" "sconst None"
                          "[1, 0]" example_article "Error ''still busy''"]
          fa fb
    by simp
qed

lemma index_upsert_frame:
  assumes "index_upsert i v m w = (r, w')"
  shows "pineconeClient w' = pineconeClient w"
    and "r = Inr () \<Longrightarrow> index w' i = Some (v, m)"
  using assms by (auto simp: index_upsert_def split: option.splits)

lemma upsert_loop_returned:
  "upsert_loop i v m n le w = (Inr (), w') \<Longrightarrow> index w' i = Some (v, m) \<and> pineconeClient w' = pineconeClient w"
proof (induction i v m n le w rule: upsert_loop.induct)
  case (1 i v m retryCount lastError w)
  show ?case
  proof (cases "index_upsert i v m w")
    case (Pair r wa)
    note fr = index_upsert_frame [OF Pair]
    show ?thesis
    proof (cases r)
      case (Inr u)
      with "1.prems" Pair fr show ?thesis
        by (simp add: upsert_loop.simps [of i v m retryCount] split: if_splits)
    next
      case (Inl err)
      show ?thesis
      proof (cases "retryCount \<le> MAX_RETRIES \<and> retryCount + 1 \<le> MAX_RETRIES")
        case True
        with "1.prems" Pair Inl
        have rec: "upsert_loop i v m (retryCount + 1) (Some err)
                 (setTimeout (2 ^ (retryCount + 1) * 1000) wa) = (Inr (), w')"
          by (simp add: upsert_loop.simps [of i v m retryCount])
        from "1.IH" [OF _ Pair [symmetric] _ _ rec] True Inl
        have "index w' i = Some (v, m) \<and>
              pineconeClient w' = pineconeClient (setTimeout (2 ^ (retryCount + 1) * 1000) wa)"
          by simp
        then show ?thesis using fr(1) by (simp add: setTimeout_def)
      next
        case False
        with "1.prems" Pair Inl show ?thesis
          by (simp add: upsert_loop.simps [of i v m retryCount] split: if_splits)
      qed
    qed
  qed
qed

lemma upsertVector_returned:
  assumes "upsertVector i v m w = (Inr (), w1)"
  shows "index w1 i \<noteq> None" and "pineconeClient w1"
proof -
  have client: "pineconeClient w"
    using assms by (auto simp: upsertVector_def split: if_splits)
  obtain r w0 where ve: "vectorExists i w = (r, w0)"
    by (cases "vectorExists i w")
  note fr = vectorExists_frame [OF ve]
  have "index w1 i \<noteq> None \<and> pineconeClient w1"
  proof (cases r)
    case (Inl err)
    with ve client show ?thesis by (simp add: vectorExists_def split: prod.splits sum.splits)
  next
    case (Inr b)
    show ?thesis
    proof (cases b)
      case True
      with Inr ve client assms have "w1 = w0"
        by (simp add: upsertVector_def)
      moreover have "index w i \<noteq> None"
        using ve Inr True client
        by (auto simp: vectorExists_def index_fetch_def split: option.splits)
      ultimately show ?thesis using fr client by simp
    next
      case False
      with Inr ve client assms have "upsert_loop i v m 0 None w0 = (Inr (), w1)"
        by (auto simp: upsertVector_def split: prod.splits sum.splits)
      from upsert_loop_returned [OF this] fr client show ?thesis by simp
    qed
  qed
  then show "index w1 i \<noteq> None" and "pineconeClient w1" by simp_all
qed

lemma upsert_present:
  assumes "pineconeClient w" and "index w i \<noteq> None" and "shd (index_fetch_faults w) = None"
  shows "upsertVector i v m w =
           (Inr (), w\<lparr>index_fetch_faults := stl (index_fetch_faults w),
                      events := events w @ [IndexFetch i]\<rparr>)"
  using assms by (auto simp: upsertVector_def vectorExists_def index_fetch_def)

text \<open>
  Claim C5, as the code has it. When the client is initialised, the id is in the index and
  the existence lookup does not fail, \<^verbatim>\<open>upsertVector\<close> returns normally after the lookup
  alone: no write is made and the index is unchanged. Hence, after an \<^verbatim>\<open>upsertVector\<close>
  that returned normally, a second one for the same id (with any vector and metadata,
  its lookup not failing) returns normally and leaves the index exactly as it was.
\<close>

theorem upsert_present_noop:
  "(pineconeClient w \<and> index w i \<noteq> None \<and> shd (index_fetch_faults w) = None \<longrightarrow>
      upsertVector i v m w =
        (Inr (), w\<lparr>index_fetch_faults := stl (index_fetch_faults w),
                   events := events w @ [IndexFetch i]\<rparr>)) \<and>
   (upsertVector i v m w = (Inr (), w1) \<and> shd (index_fetch_faults w1) = None \<longrightarrow>
      fst (upsertVector i v' m' w1) = Inr () \<and>
      index (snd (upsertVector i v' m' w1)) = index w1)"
proof (intro conjI impI)
  assume "pineconeClient w \<and> index w i \<noteq> None \<and> shd (index_fetch_faults w) = None"
  then show "upsertVector i v m w =
        (Inr (), w\<lparr>index_fetch_faults := stl (index_fetch_faults w),
                   events := events w @ [IndexFetch i]\<rparr>)"
    by (simp add: upsert_present)
next
  assume h: "upsertVector i v m w = (Inr (), w1) \<and> shd (index_fetch_faults w1) = None"
  then have "pineconeClient w1" and "index w1 i \<noteq> None"
    using upsertVector_returned [of i v m w w1] by simp_all
  with h have "upsertVector i v' m' w1 =
           (Inr (), w1\<lparr>index_fetch_faults := stl (index_fetch_faults w1),
                      events := events w1 @ [IndexFetch i]\<rparr>)"
    by (simp add: upsert_present)
  then show "fst (upsertVector i v' m' w1) = Inr ()"
    and "index (snd (upsertVector i v' m' w1)) = index w1"
    by simp_all
qed

text \<open>
  The claim without the condition on the lookup fails: \<^verbatim>\<open>vectorExists\<close> answers
  \<^verbatim>\<open>false\<close> when the lookup throws, and the write then replaces the stored record.
\<close>

theorem upsert_overwrites_counterexample:
  "index world_lookup_fails example_url = Some ([1, 0], stored_article) \<and>
   fst (upsertVector example_url [0, 1] example_article world_lookup_fails) = Inr () \<and>
   index (snd (upsertVector example_url [0, 1] example_article world_lookup_fails)) example_url =
     Some ([0, 1], example_article) \<and>
   content example_article \<noteq> content stored_article"
  by (simp add: upsertVector_def vectorExists_def index_fetch_def upsert_loop.simps
        index_upsert_def MAX_RETRIES_def world_lookup_fails_def example_world_def
        example_article_def stored_article_def)

theorem upsert_present_noop_witness:
  "fst (upsertVector example_url [0, 1] example_article world_stored) = Inr () \<and>
   index (snd (upsertVector example_url [0, 1] example_article world_stored)) example_url =
     Some ([1, 0], stored_article) \<and>
   index (snd (upsertVector example_url [0, 1] example_article 
            (snd (upsertVector example_url [1, 0] stored_article example_world)))) example_url =
     Some ([1, 0], stored_article)"
proof -
  have a: "pineconeClient world_stored \<and> index world_stored example_url \<noteq> None \<and>
           shd (index_fetch_faults world_stored) = None"
    by (simp add: world_stored_def example_world_def)
  obtain w1 where b: "upsertVector example_url [1, 0] stored_article example_world = (Inr (), w1)"
    and c: "shd (index_fetch_faults w1) = None" and d: "index w1 example_url = Some ([1, 0], stored_article)"
    by (simp add: upsertVector_def vectorExists_def index_fetch_def upsert_loop.simps
        index_upsert_def MAX_RETRIES_def example_world_def)
  show ?thesis
    using upsert_present_noop [of world_stored example_url "[0, 1]" example_article w1 "[0, 1]" example_article] a
      upsert_present_noop [of example_world example_url "[1, 0]" stored_article w1 "[0, 1]" example_article] b c d
    by (simp add: world_stored_def)
qed

section \<open>Properties of content processing and ingestion\<close>

lemma fetchUrlContent_frame:
  assumes "fetchUrlContent u w = (r, w')"
  shows "index w' = index w" and "index_upsert_faults w' = index_upsert_faults w"
    and "events w' = events w @ [HttpFetch u]"
  using assms
  by (auto simp: fetchUrlContent_def http_fetch_def split: sum.splits if_splits prod.splits)

lemma generateContent_frame:
  assumes "generateContent p w = (r, w')"
  shows "index w' = index w" and "index_upsert_faults w' = index_upsert_faults w"
    and "events w' = events w @ [GenerateContent p]"
  using assms by (auto simp: generateContent_def)

lemma cleanAndStructureHtml_frame:
  assumes "cleanAndStructureHtml e html u w = (r, w')"
  shows "index w' = index w" and "index_upsert_faults w' = index_upsert_faults w"
    and "events w' = events w @ [GenerateContent (StructurePrompt (take MAX_HTML_LENGTH html))]"
proof -
  obtain r0 w0 where g: "generateContent (StructurePrompt (take MAX_HTML_LENGTH html)) w = (r0, w0)"
    by (cases "generateContent (StructurePrompt (take MAX_HTML_LENGTH html)) w")
  have "w' = w0"
    using assms g
    by (auto simp: cleanAndStructureHtml_def Let_def split: sum.splits if_splits json_article.splits)
  with generateContent_frame [OF g]
  show "index w' = index w" and "index_upsert_faults w' = index_upsert_faults w"
    and "events w' = events w @ [GenerateContent (StructurePrompt (take MAX_HTML_LENGTH html))]"
    by simp_all
qed

lemma generateEmbeddings_frame:
  assumes "generateEmbeddings t w = (r, w')"
  shows "index w' = index w" and "index_upsert_faults w' = index_upsert_faults w"
    and "events w' = events w @ [EmbedContent (take MAX_EMBED_TEXT_LENGTH t)]"
  using assms
  by (auto simp: generateEmbeddings_def embedContent_def Let_def split: sum.splits option.splits)

lemma generateEmbeddings_labelled:
  assumes "generateEmbeddings t w = (Inl err, w')"
  shows "\<exists>msg. err = Error (''Gemini embedding generation failed: '' @ msg)"
  using assms
  by (auto simp: generateEmbeddings_def embedContent_def Let_def split: sum.splits option.splits)

lemma processUrl_try_extracted:
  assumes "u \<noteq> []" and "isValidUrl e u" and "fetchUrlContent u w = (Some html, w1)"
    and "html \<noteq> []" and "cleanAndStructureHtml e html u w1 = (Some a, w2)"
  shows "processUrl_try e u w =
           (case generateEmbeddings (title a @ ''. '' @ take 8000 (content a)) w2 of
              (Inl error, w3) \<Rightarrow> (Inl error, w3)
            | (Inr vector, w3) \<Rightarrow> (Inr (Some (a, vector)), w3))"
  using assms by (simp add: processUrl_try_def)

text \<open>
  Claim C1, as the code has it. When the extraction of a valid URL succeeds and the
  embedding step raises, the error that \<^verbatim>\<open>generateEmbeddings\<close> raises is labelled with its
  stage (\<^verbatim>\<open>Gemini embedding generation failed: \<close>), the \<^verbatim>\<open>catch\<close> of \<^verbatim>\<open>processUrl\<close> turns
  it into \<^verbatim>\<open>null\<close>, and \<^verbatim>\<open>handleUrlIngestion\<close> returns normally; nothing is written to
  the index.
\<close>

theorem embedding_failure_swallowed:
  assumes "u \<noteq> []" and "isValidUrl e u" and "fetchUrlContent u w = (Some html, w1)"
    and "html \<noteq> []" and "cleanAndStructureHtml e html u w1 = (Some a, w2)"
    and "generateEmbeddings (title a @ ''. '' @ take 8000 (content a)) w2 = (Inl err, w3)"
  shows "(\<exists>msg. err = Error (''Gemini embedding generation failed: '' @ msg)) \<and>
         processUrl_try e u w = (Inl err, w3) \<and>
         processUrl e u w = (None, w3) \<and>
         handleUrlIngestion e u w = (Inr (), w3) \<and>
         index w3 = index w \<and> index_upsert_faults w3 = index_upsert_faults w"
proof -
  have t: "processUrl_try e u w = (Inl err, w3)"
    using processUrl_try_extracted [OF assms(1-5)] assms(6) by simp
  then have p: "processUrl e u w = (None, w3)"
    by (simp add: processUrl_def)
  have h: "handleUrlIngestion e u w = (Inr (), w3)"
    using assms(1,2) p by (simp add: handleUrlIngestion_def)
  have "index w3 = index w" and "index_upsert_faults w3 = index_upsert_faults w"
    using fetchUrlContent_frame [OF assms(3)] cleanAndStructureHtml_frame [OF assms(5)]
      generateEmbeddings_frame [OF assms(6)]
    by simp_all
  with t p h generateEmbeddings_labelled [OF assms(6)] show ?thesis
    by simp
qed

lemma example_url_valid: "example_url \<noteq> [] \<and> isValidUrl example_env example_url"
  by (simp add: example_url_def isValidUrl_def example_env_def)

text \<open>
  An ingestion whose extraction succeeds and whose embedding raises does not raise.
\<close>

theorem embedding_failure_counterexample:
  "fst (cleanAndStructureHtml example_env ''<html>B</html>'' example_url
          (snd (fetchUrlContent example_url world_embed_fails))) = Some example_article \<and>
   fst (processUrl_try example_env example_url world_embed_fails) =
     Inl (Error ''Gemini embedding generation failed: quota exceeded'') \<and>
   fst (handleUrlIngestion example_env example_url world_embed_fails) = Inr ()"
  using example_url_valid
  by (simp add: handleUrlIngestion_def processUrl_def processUrl_try_def fetchUrlContent_def
      http_fetch_def cleanAndStructureHtml_def generateContent_def generateEmbeddings_def
      embedContent_def MAX_HTML_LENGTH_def MAX_EMBED_TEXT_LENGTH_def world_embed_fails_def
      example_world_def example_env_def example_article_def)

lemma example_extraction:
  "fetchUrlContent example_url world_embed_fails =
     (Some ''<html>B</html>'', snd (fetchUrlContent example_url world_embed_fails))"
  "cleanAndStructureHtml example_env ''<html>B</html>'' example_url
       (snd (fetchUrlContent example_url world_embed_fails)) =
     (Some example_article,
      snd (cleanAndStructureHtml example_env ''<html>B</html>'' example_url
             (snd (fetchUrlContent example_url world_embed_fails))))"
  "generateEmbeddings (title example_article @ ''. '' @ take 8000 (content example_article))
       (snd (cleanAndStructureHtml example_env ''<html>B</html>'' example_url
             (snd (fetchUrlContent example_url world_embed_fails)))) =
     (Inl (Error ''Gemini embedding generation failed: quota exceeded''),
      snd (generateEmbeddings (title example_article @ ''. '' @ take 8000 (content example_article))
       (snd (cleanAndStructureHtml example_env ''<html>B</html>'' example_url
             (snd (fetchUrlContent example_url world_embed_fails))))))"
  by (simp_all add: fetchUrlContent_def
      http_fetch_def cleanAndStructureHtml_def generateContent_def generateEmbeddings_def
      embedContent_def MAX_HTML_LENGTH_def MAX_EMBED_TEXT_LENGTH_def world_embed_fails_def
      example_world_def example_env_def example_article_def)

theorem embedding_failure_swallowed_witness:
  "fst (handleUrlIngestion example_env example_url world_embed_fails) = Inr () \<and>
   index (snd (handleUrlIngestion example_env example_url world_embed_fails)) = Map.empty"
proof -
  have valid: "example_url \<noteq> []" "isValidUrl example_env example_url"
    using example_url_valid by simp_all
  have html: "''<html>B</html>'' \<noteq> []"
    by simp
  have "index world_embed_fails = Map.empty"
    by (simp add: world_embed_fails_def example_world_def)
  with embedding_failure_swallowed [OF valid example_extraction(1) html example_extraction(2,3)]
  show ?thesis
    by simp
qed

lemma processUrl_embed_event:
  assumes "u \<noteq> []" and "isValidUrl e u" and "fetchUrlContent u w = (Some html, w1)"
    and "html \<noteq> []" and "cleanAndStructureHtml e html u w1 = (Some a, w2)"
  shows "events (snd (processUrl e u w)) =
           events w2 @ [EmbedContent (take 12000 (title a @ ''. '' @ take 8000 (content a)))]"
proof -
  let ?t = "title a @ ''. '' @ take 8000 (content a)"
  obtain r w3 where g: "generateEmbeddings ?t w2 = (r, w3)"
    by (cases "generateEmbeddings ?t w2")
  have "snd (processUrl e u w) = w3"
    using processUrl_try_extracted [OF assms] g
    by (cases r) (simp_all add: processUrl_def)
  then show ?thesis
    using generateEmbeddings_frame(3) [OF g] by (simp add: MAX_EMBED_TEXT_LENGTH_def)
qed

text \<open>
  Claim C2, as the code has it. For every extracted article, the text submitted to the
  embedding service is the first 12000 characters of the title, followed by \<open>''. ''\<close>,
  followed by the first 8000 characters of the content. It is always a prefix of
  title, \<open>''. ''\<close>, content, and it is the first 12000 characters of that text when the
  content has at most 8000 characters.
\<close>

theorem embedding_input:
  assumes "u \<noteq> []" and "isValidUrl e u" and "fetchUrlContent u w = (Some html, w1)"
    and "html \<noteq> []" and "cleanAndStructureHtml e html u w1 = (Some a, w2)"
  shows "events (snd (processUrl e u w)) =
           events w2 @ [EmbedContent (take 12000 (title a @ ''. '' @ take 8000 (content a)))] \<and>
         prefix (take 12000 (title a @ ''. '' @ take 8000 (content a)))
                (title a @ ''. '' @ content a) \<and>
         (length (content a) \<le> 8000 \<longrightarrow>
            take 12000 (title a @ ''. '' @ take 8000 (content a)) =
            take 12000 (title a @ ''. '' @ content a))"
proof -
  let ?t = "title a @ ''. '' @ take 8000 (content a)"
  have "prefix (take 8000 (content a)) (content a)"
    by (rule take_is_prefix)
  then have "prefix ?t (title a @ ''. '' @ content a)"
    by simp
  moreover have "prefix (take 12000 ?t) ?t"
    by (rule take_is_prefix)
  ultimately have pre: "prefix (take 12000 ?t) (title a @ ''. '' @ content a)"
    by (rule prefix_order.trans [rotated])
  show ?thesis
    using processUrl_embed_event [OF assms] pre by simp
qed

lemma long_extraction:
  "fetchUrlContent example_url example_world =
     (Some ''<html>B</html>'', snd (fetchUrlContent example_url example_world))"
  "cleanAndStructureHtml env_long_article ''<html>B</html>'' example_url
       (snd (fetchUrlContent example_url example_world)) =
     (Some \<lparr>title = ''T'', content = replicate 8001 (CHR ''x''), url = example_url, date = []\<rparr>,
      snd (cleanAndStructureHtml env_long_article ''<html>B</html>'' example_url
             (snd (fetchUrlContent example_url example_world))))"
  by (simp_all add: fetchUrlContent_def
      http_fetch_def cleanAndStructureHtml_def generateContent_def 
      MAX_HTML_LENGTH_def env_long_article_def 
      example_world_def example_env_def)

text \<open>
  With a one-letter title and a content of 8001 characters, 8003 characters are
  submitted, not the 8004 of title, \<open>''. ''\<close> and content, which are under the cap.
\<close>

theorem embedding_input_counterexample:
  "last (events (snd (processUrl env_long_article example_url example_world))) =
     EmbedContent (''T. '' @ replicate 8000 (CHR ''x'')) \<and>
   ''T. '' @ replicate 8000 (CHR ''x'') \<noteq> take 12000 (''T'' @ ''. '' @ replicate 8001 (CHR ''x''))"
proof -
  have valid: "example_url \<noteq> []" "isValidUrl env_long_article example_url"
    using example_url_valid by (simp_all add: isValidUrl_def env_long_article_def)
  have html: "''<html>B</html>'' \<noteq> []"
    by simp
  have "last (events (snd (processUrl env_long_article example_url example_world))) =
     EmbedContent (''T. '' @ replicate 8000 (CHR ''x''))"
    using processUrl_embed_event [OF valid long_extraction(1) html long_extraction(2)]
    by simp
  moreover have "''T. '' @ replicate 8000 (CHR ''x'') \<noteq>
                 take 12000 (''T'' @ ''. '' @ replicate 8001 (CHR ''x''))"
    by simp
  ultimately show ?thesis
    by simp
qed

lemma example_structuring:
  "cleanAndStructureHtml example_env ''<html>B</html>'' example_url
       (snd (fetchUrlContent example_url example_world)) =
     (Some example_article,
      snd (cleanAndStructureHtml example_env ''<html>B</html>'' example_url
             (snd (fetchUrlContent example_url example_world))))"
  by (simp add: fetchUrlContent_def http_fetch_def cleanAndStructureHtml_def
      generateContent_def MAX_HTML_LENGTH_def example_world_def example_env_def
      example_article_def)

theorem embedding_input_witness:
  "last (events (snd (processUrl example_env example_url example_world))) = EmbedContent ''A. B'' \<and>
   prefix ''A. B'' (''A'' @ ''. '' @ ''B'') \<and> ''A. B'' = take 12000 (''A'' @ ''. '' @ ''B'')"
proof -
  have valid: "example_url \<noteq> []" "isValidUrl example_env example_url"
    using example_url_valid by simp_all
  have html: "''<html>B</html>'' \<noteq> []"
    by simp
  have "length (content example_article) \<le> 8000"
    by (simp add: example_article_def)
  with embedding_input [OF valid long_extraction(1) html example_structuring]
  show ?thesis
    by (simp add: example_article_def)
qed

section \<open>Properties of the query path\<close>

text \<open>
  Claim C3, as the code has it. In knowledge mode, when text generation fails after the
  search has returned sources, the response is the fixed answer
  \<^verbatim>\<open>Couldn't generate a response.\<close> with those sources, each without its content. In
  URL mode, when text generation fails after the article has been extracted, the
  response is the fixed answer \<^verbatim>\<open>Encountered an error while processing this URL.\<close> with
  no sources.
\<close>

theorem generation_failure_response:
  "(generateEmbeddings q w = (Inr v, w1) \<and> querySimilarVectors v 1 w1 = (Inr srcs, w2) \<and>
    srcs \<noteq> [] \<and> generateText (grounding_prompt q srcs) w2 = (Inl err, w3) \<longrightarrow>
      handleKnowledgeBaseQuery q w =
        (\<lparr>answer = ''Couldn't generate a response.'', sources = map cleaned srcs\<rparr>, w3)) \<and>
   (processUrl e u w = (Some (a, v'), w1') \<and>
    generateText (summary_prompt a) w1' = (Inl err', w2') \<longrightarrow>
      handleUrlQuery e u w =
        (\<lparr>answer = ''Encountered an error while processing this URL.'', sources = []\<rparr>, w2'))"
  by (simp add: handleKnowledgeBaseQuery_def handleUrlQuery_def)

lemma example_processUrl:
  "processUrl example_env example_url world_generation_fails =
     (Some (example_article, [1, 0]), snd (processUrl example_env example_url world_generation_fails))"
  using example_url_valid
  by (simp add: processUrl_def processUrl_try_def fetchUrlContent_def
      http_fetch_def cleanAndStructureHtml_def generateContent_def generateEmbeddings_def
      embedContent_def MAX_HTML_LENGTH_def MAX_EMBED_TEXT_LENGTH_def world_generation_fails_def
      example_world_def example_env_def example_article_def)

lemma example_generation_fails:
  "generateText (summary_prompt example_article)
       (snd (processUrl example_env example_url world_generation_fails)) =
     (Inl (Error ''Gemini text generation failed: overloaded''),
      snd (generateText (summary_prompt example_article)
             (snd (processUrl example_env example_url world_generation_fails))))"
  using example_url_valid
  by (simp add: generateText_def processUrl_def processUrl_try_def fetchUrlContent_def
      http_fetch_def cleanAndStructureHtml_def generateContent_def generateEmbeddings_def
      embedContent_def MAX_HTML_LENGTH_def MAX_EMBED_TEXT_LENGTH_def world_generation_fails_def
      example_world_def example_env_def example_article_def)

text \<open>
  In URL mode the source is known when generation fails, and is not returned.
\<close>

theorem url_generation_failure_counterexample:
  "fst (processUrl example_env example_url world_generation_fails) = Some (example_article, [1, 0]) \<and>
   fst (generateText (summary_prompt example_article)
          (snd (processUrl example_env example_url world_generation_fails))) =
     Inl (Error ''Gemini text generation failed: overloaded'') \<and>
   fst (handleUrlQuery example_env example_url world_generation_fails) =
     \<lparr>answer = ''Encountered an error while processing this URL.'', sources = []\<rparr>"
proof -
  have "fst (handleUrlQuery example_env example_url world_generation_fails) =
     \<lparr>answer = ''Encountered an error while processing this URL.'', sources = []\<rparr>"
    by (subst handleUrlQuery_def, subst example_processUrl, simp, subst example_generation_fails, simp)
  then show ?thesis
    using example_processUrl example_generation_fails by (simp add: prod_eq_iff)
qed

lemma example_knowledge_steps:
  "generateEmbeddings ''what happened'' world_match_generation_fails =
     (Inr [1, 0], snd (generateEmbeddings ''what happened'' world_match_generation_fails))"
  "querySimilarVectors [1, 0] 1 (snd (generateEmbeddings ''what happened'' world_match_generation_fails)) =
     (Inr [match_source example_article],
      snd (querySimilarVectors [1, 0] 1
             (snd (generateEmbeddings ''what happened'' world_match_generation_fails))))"
  "generateText (grounding_prompt ''what happened'' [match_source example_article])
       (snd (querySimilarVectors [1, 0] 1
             (snd (generateEmbeddings ''what happened'' world_match_generation_fails)))) =
     (Inl (Error ''Gemini text generation failed: overloaded''),
      snd (generateText (grounding_prompt ''what happened'' [match_source example_article])
       (snd (querySimilarVectors [1, 0] 1
             (snd (generateEmbeddings ''what happened'' world_match_generation_fails))))))"
  by (simp_all add: generateText_def generateContent_def generateEmbeddings_def embedContent_def
      querySimilarVectors_def index_query_def List.map_filter_def
      MAX_EMBED_TEXT_LENGTH_def world_match_generation_fails_def world_match_def
      example_match_def example_world_def)

theorem generation_failure_response_witness:
  "fst (handleKnowledgeBaseQuery ''what happened'' world_match_generation_fails) =
     \<lparr>answer = ''Couldn't generate a response.'',
      sources = [\<lparr>src_title = ''A'', src_url = example_url, src_date = ''2024-01-01'',
                  src_content = None\<rparr>]\<rparr> \<and>
   fst (handleUrlQuery example_env example_url world_generation_fails) =
     \<lparr>answer = ''Encountered an error while processing this URL.'', sources = []\<rparr>"
proof -
  have "handleKnowledgeBaseQuery ''what happened'' world_match_generation_fails =
     (\<lparr>answer = ''Couldn't generate a response.'',
       sources = map cleaned [match_source example_article]\<rparr>,
      snd (generateText (grounding_prompt ''what happened'' [match_source example_article])
       (snd (querySimilarVectors [1, 0] 1
             (snd (generateEmbeddings ''what happened'' world_match_generation_fails))))))"
  proof (rule generation_failure_response [THEN conjunct1, THEN mp])
    show "generateEmbeddings ''what happened'' world_match_generation_fails =
            (Inr [1, 0], snd (generateEmbeddings ''what happened'' world_match_generation_fails)) \<and>
          querySimilarVectors [1, 0] 1
            (snd (generateEmbeddings ''what happened'' world_match_generation_fails)) =
            (Inr [match_source example_article],
             snd (querySimilarVectors [1, 0] 1
                    (snd (generateEmbeddings ''what happened'' world_match_generation_fails)))) \<and>
          [match_source example_article] \<noteq> [] \<and>
          generateText (grounding_prompt ''what happened'' [match_source example_article])
            (snd (querySimilarVectors [1, 0] 1
                    (snd (generateEmbeddings ''what happened'' world_match_generation_fails)))) =
            (Inl (Error ''Gemini text generation failed: overloaded''),
             snd (generateText (grounding_prompt ''what happened'' [match_source example_article])
               (snd (querySimilarVectors [1, 0] 1
                 (snd (generateEmbeddings ''what happened'' world_match_generation_fails))))))"
      by (intro conjI example_knowledge_steps) simp
  qed
  moreover have "handleUrlQuery example_env example_url world_generation_fails =
     (\<lparr>answer = ''Encountered an error while processing this URL.'', sources = []\<rparr>,
      snd (generateText (summary_prompt example_article)
             (snd (processUrl example_env example_url world_generation_fails))))"
  proof (rule generation_failure_response [THEN conjunct2, THEN mp])
    show "processUrl example_env example_url world_generation_fails =
            (Some (example_article, [1, 0]),
             snd (processUrl example_env example_url world_generation_fails)) \<and>
          generateText (summary_prompt example_article)
            (snd (processUrl example_env example_url world_generation_fails)) =
            (Inl (Error ''Gemini text generation failed: overloaded''),
             snd (generateText (summary_prompt example_article)
                    (snd (processUrl example_env example_url world_generation_fails))))"
      by (intro conjI example_processUrl example_generation_fails)
  qed
  ultimately show ?thesis
    by (simp add: cleaned_def match_source_def example_article_def)
qed

text \<open>
  Claim C6. \<^verbatim>\<open>handleQuery\<close> always returns a response and never throws: whatever the
  two handlers do, the result is a response; when the handler that the query is routed
  to throws, the result is the fixed apology with no sources; and with the handlers of
  the program the result is a response for every platform, payload and world.
\<close>

theorem handleQuery_never_throws:
  "(\<exists>r w'. handleQueryWith urlHandler knowledgeHandler e payload w = (Inr r, w')) \<and>
   (\<forall>err w'. (if isValidUrl e (query payload) then urlHandler else knowledgeHandler)
               (query payload) w = (Inl err, w') \<longrightarrow>
        handleQueryWith urlHandler knowledgeHandler e payload w =
          (Inr \<lparr>answer = ''Sorry, I encountered an unexpected error while processing your request.'',
                sources = []\<rparr>, w')) \<and>
   (\<exists>r w'. handleQuery e payload w = (Inr r, w'))"
proof -
  have a: "\<exists>r w'. handleQueryWith uh kh e payload w = (Inr r, w')" for uh kh
    by (cases "(if isValidUrl e (query payload) then uh else kh) (query payload) w")
       (auto simp: handleQueryWith_def Let_def split: sum.splits)
  have b: "\<forall>err w'. (if isValidUrl e (query payload) then urlHandler else knowledgeHandler)
               (query payload) w = (Inl err, w') \<longrightarrow>
        handleQueryWith urlHandler knowledgeHandler e payload w =
          (Inr \<lparr>answer = ''Sorry, I encountered an unexpected error while processing your request.'',
                sources = []\<rparr>, w')"
    by (simp add: handleQueryWith_def Let_def)
  show ?thesis
    using a b unfolding handleQuery_def by blast
qed

theorem handleQuery_never_throws_witness:
  "handleQueryWith failing_handler failing_handler example_env \<lparr>query = ''what happened''\<rparr>
       example_world =
     (Inr \<lparr>answer = ''Sorry, I encountered an unexpected error while processing your request.'',
           sources = []\<rparr>, example_world)"
proof -
  have "(if isValidUrl example_env (query \<lparr>query = ''what happened''\<rparr>)
         then failing_handler else failing_handler) (query \<lparr>query = ''what happened''\<rparr>) example_world =
        (Inl (Error ''unexpected''), example_world)"
    by (simp add: failing_handler_def)
  with handleQuery_never_throws
         [of failing_handler failing_handler example_env "\<lparr>query = ''what happened''\<rparr>" example_world]
  show ?thesis
    by blast
qed

lemma handleUrlQuery_sources:
  "s \<in> set (sources (fst (handleUrlQuery e u w))) \<Longrightarrow> src_content s = None"
  by (auto simp: handleUrlQuery_def split: prod.splits option.splits sum.splits)

lemma handleKnowledgeBaseQuery_sources:
  "s \<in> set (sources (fst (handleKnowledgeBaseQuery q w))) \<Longrightarrow> src_content s = None"
  by (auto simp: handleKnowledgeBaseQuery_def cleaned_def
           split: prod.splits option.splits sum.splits if_splits)

text \<open>
  Claim C7. No source in a response has a content field: in every response of
  \<^verbatim>\<open>handleUrlQuery\<close>, of \<^verbatim>\<open>handleKnowledgeBaseQuery\<close> and of \<^verbatim>\<open>handleQuery\<close>, on every
  branch, each element of \<open>sources\<close> has \<open>src_content = None\<close>.
\<close>

theorem sources_without_content:
  "(\<forall>s \<in> set (sources (fst (handleUrlQuery e u w))). src_content s = None) \<and>
   (\<forall>s \<in> set (sources (fst (handleKnowledgeBaseQuery q w))). src_content s = None) \<and>
   (handleQuery e payload w = (Inr r, w') \<longrightarrow> (\<forall>s \<in> set (sources r). src_content s = None))"
proof (intro conjI impI ballI)
  fix s assume "s \<in> set (sources (fst (handleUrlQuery e u w)))"
  then show "src_content s = None" by (rule handleUrlQuery_sources)
next
  fix s assume "s \<in> set (sources (fst (handleKnowledgeBaseQuery q w)))"
  then show "src_content s = None" by (rule handleKnowledgeBaseQuery_sources)
next
  fix s assume h: "handleQuery e payload w = (Inr r, w')" and s: "s \<in> set (sources r)"
  show "src_content s = None"
  proof (cases "isValidUrl e (query payload)")
    case True
    with h have "r = fst (handleUrlQuery e (query payload) w)"
      by (auto simp: handleQuery_def handleQueryWith_def returned_def Let_def split: prod.splits)
    with s show ?thesis by (simp add: handleUrlQuery_sources)
  next
    case False
    with h have "r = fst (handleKnowledgeBaseQuery (query payload) w)"
      by (auto simp: handleQuery_def handleQueryWith_def returned_def Let_def split: prod.splits)
    with s show ?thesis by (simp add: handleKnowledgeBaseQuery_sources)
  qed
qed

lemma example_answers:
  "fst (handleKnowledgeBaseQuery ''what happened'' world_match) =
     \<lparr>answer = ''text'',
      sources = [\<lparr>src_title = ''A'', src_url = example_url, src_date = ''2024-01-01'',
                  src_content = None\<rparr>]\<rparr>"
  "fst (querySimilarVectors [1, 0] 1 (snd (generateEmbeddings ''what happened'' world_match))) =
     Inr [\<lparr>src_title = ''A'', src_url = example_url, src_date = ''2024-01-01'',
           src_content = Some ''B''\<rparr>]"
  by (simp_all add: handleKnowledgeBaseQuery_def generateText_def generateContent_def
      generateEmbeddings_def embedContent_def
      querySimilarVectors_def index_query_def List.map_filter_def
      MAX_EMBED_TEXT_LENGTH_def world_match_def cleaned_def match_source_def
      example_match_def example_world_def example_article_def)

theorem sources_without_content_witness:
  "sources (fst (handleKnowledgeBaseQuery ''what happened'' world_match)) \<noteq> [] \<and>
   src_content (hd (sources (fst (handleKnowledgeBaseQuery ''what happened'' world_match)))) = None \<and>
   fst (querySimilarVectors [1, 0] 1 (snd (generateEmbeddings ''what happened'' world_match))) =
     Inr [\<lparr>src_title = ''A'', src_url = example_url, src_date = ''2024-01-01'',
           src_content = Some ''B''\<rparr>]"
proof -
  have ne: "sources (fst (handleKnowledgeBaseQuery ''what happened'' world_match)) \<noteq> []"
    by (simp add: example_answers)
  then have "hd (sources (fst (handleKnowledgeBaseQuery ''what happened'' world_match)))
             \<in> set (sources (fst (handleKnowledgeBaseQuery ''what happened'' world_match)))"
    by (rule hd_in_set)
  with sources_without_content [where q = "''what happened''" and w = world_match]
  have "src_content (hd (sources (fst (handleKnowledgeBaseQuery ''what happened'' world_match)))) = None"
    by blast
  with ne example_answers(2) show ?thesis
    by simp
qed

lemma querySimilarVectors_zero_matches:
  assumes "pineconeClient w" and "shd (index_query_responses w) v k = Inr ms"
    and "ms = None \<or> ms = Some []"
  shows "fst (querySimilarVectors v k w) = Inr []"
  using assms by (auto simp: querySimilarVectors_def index_query_def)

text \<open>
  Claim C9. In knowledge mode, when the embedding of the query succeeds and the
  similarity search returns no match (an empty or an absent list of matches), the
  response is exactly the answer
  \<^verbatim>\<open>No information related to the query in our knowledge base.\<close> with no sources; this
  is also what \<^verbatim>\<open>handleQuery\<close> returns for a query that is not a URL.
\<close>

theorem no_matches_response:
  assumes "generateEmbeddings q w = (Inr v, w1)" and "pineconeClient w1"
    and "shd (index_query_responses w1) v 1 = Inr ms" and "ms = None \<or> ms = Some []"
  shows "fst (handleKnowledgeBaseQuery q w) =
           \<lparr>answer = ''No information related to the query in our knowledge base.'', sources = []\<rparr> \<and>
         (\<not> isValidUrl e q \<longrightarrow>
            fst (handleQuery e \<lparr>query = q\<rparr> w) =
              Inr \<lparr>answer = ''No information related to the query in our knowledge base.'',
                    sources = []\<rparr>)"
proof -
  have "fst (querySimilarVectors v 1 w1) = Inr []"
    using assms(2-4) by (rule querySimilarVectors_zero_matches)
  then obtain w2 where "querySimilarVectors v 1 w1 = (Inr [], w2)"
    by (cases "querySimilarVectors v 1 w1") simp
  then have k: "fst (handleKnowledgeBaseQuery q w) =
           \<lparr>answer = ''No information related to the query in our knowledge base.'', sources = []\<rparr>"
    using assms(1) by (simp add: handleKnowledgeBaseQuery_def)
  then show ?thesis
    by (cases "handleKnowledgeBaseQuery q w")
       (simp add: handleQuery_def handleQueryWith_def returned_def Let_def)
qed

theorem no_matches_response_witness:
  "fst (handleQuery example_env \<lparr>query = ''what happened''\<rparr> example_world) =
     Inr \<lparr>answer = ''No information related to the query in our knowledge base.'', sources = []\<rparr>"
proof -
  have a: "generateEmbeddings ''what happened'' example_world =
             (Inr [1, 0], snd (generateEmbeddings ''what happened'' example_world))"
    by (simp add: generateEmbeddings_def embedContent_def MAX_EMBED_TEXT_LENGTH_def
          example_world_def)
  have b: "pineconeClient (snd (generateEmbeddings ''what happened'' example_world))"
    and c: "shd (index_query_responses (snd (generateEmbeddings ''what happened'' example_world)))
              [1, 0] 1 = Inr (Some [])"
    by (simp_all add: generateEmbeddings_def embedContent_def MAX_EMBED_TEXT_LENGTH_def
          example_world_def)
  have d: "Some [] = None \<or> Some ([] :: match list) = Some []"
    by simp
  have e: "\<not> isValidUrl example_env ''what happened''"
    by (simp add: isValidUrl_def example_env_def)
  from no_matches_response [OF a b c d, of example_env] e show ?thesis
    by simp
qed

section \<open>Properties of the consumer\<close>

lemma upsert_loop_events:
  "upsert_loop i v m n le w = (r, w') \<Longrightarrow>
     \<exists>evs. events w' = events w @ evs \<and> filter is_fetch evs = [] \<and>
           filter is_embed evs = [] \<and> filter is_lookup evs = []"
proof (induction i v m n le w rule: upsert_loop.induct)
  case (1 i v m retryCount lastError w)
  show ?case
  proof (cases "index_upsert i v m w")
    case (Pair r0 wa)
    then have ev: "events wa = events w @ [IndexUpsert i v m]"
      by (auto simp: index_upsert_def split: option.splits)
    show ?thesis
    proof (cases "retryCount \<le> MAX_RETRIES")
      case False
      with "1.prems" show ?thesis
        by (simp add: upsert_loop.simps [of i v m retryCount])
    next
      case le: True
      show ?thesis
      proof (cases r0)
        case (Inr u)
        with "1.prems" Pair le ev show ?thesis
          by (auto simp: upsert_loop.simps [of i v m retryCount])
      next
        case (Inl err)
        show ?thesis
        proof (cases "retryCount + 1 \<le> MAX_RETRIES")
          case True
          with "1.prems" Pair Inl le
          have rec: "upsert_loop i v m (retryCount + 1) (Some err)
                   (setTimeout (2 ^ (retryCount + 1) * 1000) wa) = (r, w')"
            by (simp add: upsert_loop.simps [of i v m retryCount])
          from "1.IH" [OF le Pair [symmetric] _ _ rec] True Inl
          obtain evs where "events w' = events (setTimeout (2 ^ (retryCount + 1) * 1000) wa) @ evs"
            and "filter is_fetch evs = []" and "filter is_embed evs = []" and "filter is_lookup evs = []"
            by auto
          with ev show ?thesis
            by (simp add: setTimeout_def)
        next
          case False
          with "1.prems" Pair Inl le ev show ?thesis
            by (auto simp: upsert_loop.simps [of i v m retryCount])
        qed
      qed
    qed
  qed
qed

lemma vectorExists_events:
  assumes "pineconeClient w"
  shows "\<exists>b w0. vectorExists i w = (Inr b, w0) \<and> events w0 = events w @ [IndexFetch i]"
  using assms
  by (cases "shd (index_fetch_faults w)") (auto simp: vectorExists_def index_fetch_def)

lemma upsertVector_events:
  assumes "upsertVector i v m w = (r, w')"
  shows "\<exists>evs. events w' = events w @ evs \<and> filter is_fetch evs = [] \<and>
           filter is_embed evs = [] \<and> length (filter is_lookup evs) \<le> 1"
proof (cases "pineconeClient w")
  case False
  with assms show ?thesis by (simp add: upsertVector_def)
next
  case True
  obtain b w0 where ve: "vectorExists i w = (Inr b, w0)" and ev0: "events w0 = events w @ [IndexFetch i]"
    using vectorExists_events [OF True, of i] by auto
  show ?thesis
  proof (cases b)
    case True
    with assms ve \<open>pineconeClient w\<close> ev0 show ?thesis
      by (auto simp: upsertVector_def)
  next
    case False
    obtain r1 w2 where l: "upsert_loop i v m 0 None w0 = (r1, w2)"
      by (cases "upsert_loop i v m 0 None w0")
    from upsert_loop_events [OF l] obtain evs where "events w2 = events w0 @ evs"
      and "filter is_fetch evs = []" and "filter is_embed evs = []" and "filter is_lookup evs = []"
      by auto
    moreover have "w' = w2"
      using assms ve \<open>pineconeClient w\<close> False l by (cases r1) (auto simp: upsertVector_def)
    ultimately show ?thesis using ev0 by simp
  qed
qed

lemma processUrl_events:
  assumes "u \<noteq> []" and "isValidUrl e u" and "processUrl e u w = (r, w')"
  shows "\<exists>evs. events w' = events w @ HttpFetch u # evs \<and> filter is_fetch evs = [] \<and>
           length (filter is_embed evs) \<le> 1 \<and> filter is_lookup evs = []"
proof -
  obtain r1 w1 where f: "fetchUrlContent u w = (r1, w1)"
    by (cases "fetchUrlContent u w")
  note ff = fetchUrlContent_frame(3) [OF f]
  show ?thesis
  proof (cases "r1 = None \<or> r1 = Some []")
    case True
    with assms f have "w' = w1"
      by (auto simp: processUrl_def processUrl_try_def)
    with ff show ?thesis by simp
  next
    case False
    then obtain html where h: "r1 = Some html" "html \<noteq> []"
      by auto
    obtain r2 w2 where c: "cleanAndStructureHtml e html u w1 = (r2, w2)"
      by (cases "cleanAndStructureHtml e html u w1")
    note cf = cleanAndStructureHtml_frame(3) [OF c]
    show ?thesis
    proof (cases r2)
      case None
      with assms f h c have "w' = w2"
        by (auto simp: processUrl_def processUrl_try_def)
      with ff cf show ?thesis by simp
    next
      case (Some a)
      obtain r3 w3 where g: "generateEmbeddings (title a @ ''. '' @ take 8000 (content a)) w2 = (r3, w3)"
        by (cases "generateEmbeddings (title a @ ''. '' @ take 8000 (content a)) w2")
      note gf = generateEmbeddings_frame(3) [OF g]
      have "w' = w3"
        using assms f h c Some g by (cases r3) (auto simp: processUrl_def processUrl_try_def)
      with ff cf gf show ?thesis by simp
    qed
  qed
qed

lemma handleUrlIngestion_raises_valid:
  "handleUrlIngestion e u w = (Inl err, w') \<Longrightarrow> u \<noteq> [] \<and> isValidUrl e u"
  by (auto simp: handleUrlIngestion_def split: if_splits)

lemma handleUrlIngestion_events:
  assumes "handleUrlIngestion e u w = (r, w')"
  shows "\<exists>evs. events w' = events w @ evs \<and> length (filter is_fetch evs) \<le> 1 \<and>
           length (filter is_embed evs) \<le> 1 \<and> length (filter is_lookup evs) \<le> 1 \<and>
           (u \<noteq> [] \<and> isValidUrl e u \<longrightarrow> take 1 evs = [HttpFetch u])"
proof (cases "u \<noteq> [] \<and> isValidUrl e u")
  case False
  with assms show ?thesis by (auto simp: handleUrlIngestion_def)
next
  case True
  obtain r1 w1 where p: "processUrl e u w = (r1, w1)"
    by (cases "processUrl e u w")
  from processUrl_events [OF _ _ p] True
  obtain evs where e1: "events w1 = events w @ HttpFetch u # evs" "filter is_fetch evs = []"
    "length (filter is_embed evs) \<le> 1" "filter is_lookup evs = []"
    by auto
  show ?thesis
  proof (cases r1)
    case None
    with assms True p have "w' = w1"
      by (auto simp: handleUrlIngestion_def)
    with e1 True show ?thesis by simp
  next
    case (Some av)
    obtain a v where av: "av = (a, v)" by (cases av)
    obtain r2 w2 where s: "upsertVector u v a w1 = (r2, w2)"
      by (cases "upsertVector u v a w1")
    from upsertVector_events [OF s]
    obtain evs2 where e2: "events w2 = events w1 @ evs2" "filter is_fetch evs2 = []"
      "filter is_embed evs2 = []" "length (filter is_lookup evs2) \<le> 1"
      by auto
    have "w' = w2"
      using assms True p Some av s
      by (cases r2) (auto simp: handleUrlIngestion_def store_try_def)
    with e1 e2 True show ?thesis by simp
  qed
qed

lemma handleKafkaMessage_skip:
  "message_url e s \<in> set cache \<Longrightarrow> handleKafkaMessage e (Some s) (cache, w) = (cache, w)"
  by (simp add: handleKafkaMessage_def)

lemma handleKafkaMessage_raised:
  assumes "message_url e s \<notin> set cache"
    and "handleUrlIngestion e (message_url e s) w = (Inl err, w1)"
  shows "handleKafkaMessage e (Some s) (cache, w) = (cache, w1)"
  using assms by (simp add: handleKafkaMessage_def)

lemma handleKafkaMessage_returned:
  assumes "message_url e s \<notin> set cache"
    and "handleUrlIngestion e (message_url e s) w = (Inr (), w1)"
  shows "handleKafkaMessage e (Some s) (cache, w) =
           (if length cache < MAX_CACHE_SIZE then cache @ [message_url e s] else [], w1)"
  using assms by (auto simp: handleKafkaMessage_def cache_add_def Let_def)

lemma handleKafkaMessage_cache:
  assumes "length cache < MAX_CACHE_SIZE"
  shows "set cache \<subseteq> set (fst (handleKafkaMessage e m (cache, w))) \<and>
         length (fst (handleKafkaMessage e m (cache, w))) \<le> length cache + 1"
proof (cases m)
  case None
  then show ?thesis by (simp add: handleKafkaMessage_def)
next
  case (Some s)
  show ?thesis
  proof (cases "message_url e s \<in> set cache")
    case True
    with Some show ?thesis by (simp add: handleKafkaMessage_def)
  next
    case False
    obtain r w1 where i: "handleUrlIngestion e (message_url e s) w = (r, w1)"
      by (cases "handleUrlIngestion e (message_url e s) w")
    show ?thesis
    proof (cases r)
      case (Inl err)
      with Some False i show ?thesis by (simp add: handleKafkaMessage_def)
    next
      case (Inr x)
      with Some False i assms show ?thesis
        by (auto simp: handleKafkaMessage_def cache_add_def Let_def)
    qed
  qed
qed

lemma deliver_keeps_cache:
  "length cache + length messages \<le> MAX_CACHE_SIZE \<Longrightarrow>
     set cache \<subseteq> set (fst (deliver e messages (cache, w)))"
proof (induction messages arbitrary: cache w)
  case Nil
  then show ?case by (simp add: deliver_def)
next
  case (Cons m messages)
  obtain cache1 w1 where st: "handleKafkaMessage e m (cache, w) = (cache1, w1)"
    by (cases "handleKafkaMessage e m (cache, w)")
  have room: "length cache < MAX_CACHE_SIZE"
    using Cons.prems by simp
  from handleKafkaMessage_cache [OF room, of e m w] st
  have sub: "set cache \<subseteq> set cache1" and len: "length cache1 \<le> length cache + 1"
    by simp_all
  have "length cache1 + length messages \<le> MAX_CACHE_SIZE"
    using len Cons.prems by simp
  from Cons.IH [OF this, of w1] have "set cache1 \<subseteq> set (fst (deliver e messages (cache1, w1)))" .
  moreover have "deliver e (m # messages) (cache, w) = deliver e messages (cache1, w1)"
    by (simp add: deliver_def st)
  ultimately show ?case using sub by auto
qed

lemma deliver_then_skip:
  assumes "message_url e s \<in> set cache" and "length cache + length messages \<le> MAX_CACHE_SIZE"
  shows "handleKafkaMessage e (Some s) (deliver e messages (cache, w)) = deliver e messages (cache, w)"
proof -
  obtain cache1 w1 where st: "deliver e messages (cache, w) = (cache1, w1)"
    by (cases "deliver e messages (cache, w)")
  with deliver_keeps_cache [OF assms(2), of e w] assms(1) have "message_url e s \<in> set cache1"
    by auto
  then show ?thesis
    by (simp add: st handleKafkaMessage_skip)
qed

text \<open>
  Claim C8, as the code has it. A message whose URL is in the cache is skipped before
  anything else happens: the cache and the world are unchanged. When a URL that is not
  in the cache is ingested without an exception and the cache has room (fewer than
  \<^verbatim>\<open>MAX_CACHE_SIZE\<close> entries), the URL is cached, a second delivery of the same message
  changes nothing, and the two deliveries together make at most one page fetch, one
  embedding call and one \<^verbatim>\<open>upsertVector\<close> lookup. A cached URL is still skipped after
  any sequence of messages that the cache has room for.
\<close>

theorem dedup_skip:
  "(message_url e s \<in> set cache \<longrightarrow> handleKafkaMessage e (Some s) (cache, w) = (cache, w)) \<and>
   (message_url e s \<notin> set cache \<and> fst (handleUrlIngestion e (message_url e s) w) = Inr () \<and>
    length cache < MAX_CACHE_SIZE \<longrightarrow>
      fst (handleKafkaMessage e (Some s) (cache, w)) = cache @ [message_url e s] \<and>
      handleKafkaMessage e (Some s) (handleKafkaMessage e (Some s) (cache, w)) =
        handleKafkaMessage e (Some s) (cache, w) \<and>
      (\<exists>evs. events (snd (handleKafkaMessage e (Some s)
                            (handleKafkaMessage e (Some s) (cache, w)))) = events w @ evs \<and>
             length (filter is_fetch evs) \<le> 1 \<and> length (filter is_embed evs) \<le> 1 \<and>
             length (filter is_lookup evs) \<le> 1)) \<and>
   (message_url e s \<in> set cache \<and> length cache + length messages \<le> MAX_CACHE_SIZE \<longrightarrow>
      handleKafkaMessage e (Some s) (deliver e messages (cache, w)) =
        deliver e messages (cache, w))"
proof (intro conjI impI)
  assume "message_url e s \<in> set cache"
  then show "handleKafkaMessage e (Some s) (cache, w) = (cache, w)"
    by (rule handleKafkaMessage_skip)
next
  assume "message_url e s \<in> set cache \<and> length cache + length messages \<le> MAX_CACHE_SIZE"
  then show "handleKafkaMessage e (Some s) (deliver e messages (cache, w)) =
        deliver e messages (cache, w)"
    by (simp add: deliver_then_skip)
next
  assume h: "message_url e s \<notin> set cache \<and> fst (handleUrlIngestion e (message_url e s) w) = Inr () \<and>
    length cache < MAX_CACHE_SIZE"
  then obtain w1 where i: "handleUrlIngestion e (message_url e s) w = (Inr (), w1)"
    by (cases "handleUrlIngestion e (message_url e s) w") simp
  have first: "handleKafkaMessage e (Some s) (cache, w) = (cache @ [message_url e s], w1)"
    using handleKafkaMessage_returned [OF _ i] h by simp
  have second: "handleKafkaMessage e (Some s) (cache @ [message_url e s], w1) =
                  (cache @ [message_url e s], w1)"
    by (rule handleKafkaMessage_skip) simp
  show "fst (handleKafkaMessage e (Some s) (cache, w)) = cache @ [message_url e s]"
    by (simp add: first)
  show "handleKafkaMessage e (Some s) (handleKafkaMessage e (Some s) (cache, w)) =
        handleKafkaMessage e (Some s) (cache, w)"
    by (simp add: first second)
  show "\<exists>evs. events (snd (handleKafkaMessage e (Some s)
                            (handleKafkaMessage e (Some s) (cache, w)))) = events w @ evs \<and>
             length (filter is_fetch evs) \<le> 1 \<and> length (filter is_embed evs) \<le> 1 \<and>
             length (filter is_lookup evs) \<le> 1"
    using handleUrlIngestion_events [OF i] by (auto simp: first second)
qed

text \<open>
  Claim C10. A URL enters the cache only through an ingestion that returned without
  throwing. When \<^verbatim>\<open>handleUrlIngestion\<close> throws for a URL that is not in the cache, the
  cache is left as it was, and a redelivered message for that URL is processed again:
  its world is the one \<^verbatim>\<open>handleUrlIngestion\<close> produces, which starts with a new fetch of
  the page.
\<close>

theorem failed_ingestion_not_cached:
  "(message_url e s \<notin> set cache \<and>
    message_url e s \<in> set (fst (handleKafkaMessage e (Some s) (cache, w))) \<longrightarrow>
      fst (handleUrlIngestion e (message_url e s) w) = Inr ()) \<and>
   (message_url e s \<notin> set cache \<and> handleUrlIngestion e (message_url e s) w = (Inl err, w1) \<longrightarrow>
      handleKafkaMessage e (Some s) (cache, w) = (cache, w1) \<and>
      snd (handleKafkaMessage e (Some s) (cache, w1)) =
        snd (handleUrlIngestion e (message_url e s) w1) \<and>
      (\<exists>evs. events (snd (handleKafkaMessage e (Some s) (cache, w1))) =
               events w1 @ HttpFetch (message_url e s) # evs))"
proof (intro conjI impI)
  assume h: "message_url e s \<notin> set cache \<and>
    message_url e s \<in> set (fst (handleKafkaMessage e (Some s) (cache, w)))"
  obtain r w0 where i: "handleUrlIngestion e (message_url e s) w = (r, w0)"
    by (cases "handleUrlIngestion e (message_url e s) w")
  show "fst (handleUrlIngestion e (message_url e s) w) = Inr ()"
  proof (cases r)
    case (Inl err)
    with h i handleKafkaMessage_raised [of e s cache w err w0] show ?thesis
      by simp
  next
    case (Inr x)
    with i show ?thesis by simp
  qed
next
  assume h: "message_url e s \<notin> set cache \<and>
             handleUrlIngestion e (message_url e s) w = (Inl err, w1)"
  then show "handleKafkaMessage e (Some s) (cache, w) = (cache, w1)"
    by (simp add: handleKafkaMessage_raised)
  obtain r w2 where again: "handleUrlIngestion e (message_url e s) w1 = (r, w2)"
    by (cases "handleUrlIngestion e (message_url e s) w1")
  have w2: "snd (handleKafkaMessage e (Some s) (cache, w1)) = w2"
    using h again by (cases r) (simp_all add: handleKafkaMessage_def Let_def)
  then show "snd (handleKafkaMessage e (Some s) (cache, w1)) =
        snd (handleUrlIngestion e (message_url e s) w1)"
    by (simp add: again)
  have valid: "message_url e s \<noteq> [] \<and> isValidUrl e (message_url e s)"
    using h handleUrlIngestion_raises_valid by blast
  from handleUrlIngestion_events [OF again] valid
  obtain evs where "events w2 = events w1 @ evs" and "take 1 evs = [HttpFetch (message_url e s)]"
    by auto
  then have "events w2 = events w1 @ HttpFetch (message_url e s) # tl evs"
    by (cases evs) simp_all
  then show "\<exists>evs. events (snd (handleKafkaMessage e (Some s) (cache, w1))) =
               events w1 @ HttpFetch (message_url e s) # evs"
    using w2 by blast
qed

lemma ingestion_store_down:
  assumes "w = world_store_down\<lparr>events := evs\<rparr>"
  shows "handleUrlIngestion example_env example_url w =
           (Inl (Error ''URL processing failed: Vector storage failed: Failed to upsert vector to Pinecone: down''),
            w\<lparr>events := evs @
               [HttpFetch example_url, GenerateContent (StructurePrompt ''<html>B</html>''),
                EmbedContent ''A. B'', IndexFetch example_url,
                IndexUpsert example_url [1, 0] example_article, SetTimeout 2000,
                IndexUpsert example_url [1, 0] example_article, SetTimeout 4000,
                IndexUpsert example_url [1, 0] example_article]\<rparr>)"
  using example_url_valid unfolding assms
  by (simp add: handleUrlIngestion_def store_try_def upsertVector_def vectorExists_def
      index_fetch_def upsert_loop.simps index_upsert_def setTimeout_def MAX_RETRIES_def
      processUrl_def processUrl_try_def fetchUrlContent_def
      http_fetch_def cleanAndStructureHtml_def generateContent_def generateEmbeddings_def
      embedContent_def MAX_HTML_LENGTH_def MAX_EMBED_TEXT_LENGTH_def world_store_down_def
      example_world_def example_env_def example_article_def)

lemma example_message_url: "message_url example_env s = s"
  by (simp add: message_url_def example_env_def)

lemma ingestion_example_world:
  "fst (handleUrlIngestion example_env example_url example_world) = Inr ()"
  using example_url_valid
  by (simp add: handleUrlIngestion_def store_try_def upsertVector_def vectorExists_def
      index_fetch_def upsert_loop.simps index_upsert_def setTimeout_def MAX_RETRIES_def
      processUrl_def processUrl_try_def fetchUrlContent_def
      http_fetch_def cleanAndStructureHtml_def generateContent_def generateEmbeddings_def
      embedContent_def MAX_HTML_LENGTH_def MAX_EMBED_TEXT_LENGTH_def
      example_world_def example_env_def example_article_def)

lemma store_down_first:
  "handleKafkaMessage example_env (Some example_url) ([], world_store_down) =
     ([], world_store_down\<lparr>events :=
        [HttpFetch example_url, GenerateContent (StructurePrompt ''<html>B</html>''),
         EmbedContent ''A. B'', IndexFetch example_url,
         IndexUpsert example_url [1, 0] example_article, SetTimeout 2000,
         IndexUpsert example_url [1, 0] example_article, SetTimeout 4000,
         IndexUpsert example_url [1, 0] example_article]\<rparr>)"
proof -
  have "world_store_down = world_store_down\<lparr>events := []\<rparr>"
    by (simp add: world_store_down_def example_world_def)
  from ingestion_store_down [OF this] show ?thesis
    by (simp add: handleKafkaMessage_def example_message_url)
qed

text \<open>
  Two deliveries of one URL with nothing in between, the first failing at the storage
  step: the URL is not cached, and the page is fetched, embedded and looked up twice.
\<close>

theorem redelivery_after_failure_counterexample:
  "fst (handleKafkaMessage example_env (Some example_url) ([], world_store_down)) = [] \<and>
   filter is_fetch (events (snd (handleKafkaMessage example_env (Some example_url)
       (handleKafkaMessage example_env (Some example_url) ([], world_store_down))))) =
     [HttpFetch example_url, HttpFetch example_url] \<and>
   filter is_embed (events (snd (handleKafkaMessage example_env (Some example_url)
       (handleKafkaMessage example_env (Some example_url) ([], world_store_down))))) =
     [EmbedContent ''A. B'', EmbedContent ''A. B''] \<and>
   filter is_lookup (events (snd (handleKafkaMessage example_env (Some example_url)
       (handleKafkaMessage example_env (Some example_url) ([], world_store_down))))) =
     [IndexFetch example_url, IndexFetch example_url]"
proof -
  have "handleUrlIngestion example_env example_url
          (world_store_down\<lparr>events :=
        [HttpFetch example_url, GenerateContent (StructurePrompt ''<html>B</html>''),
         EmbedContent ''A. B'', IndexFetch example_url,
         IndexUpsert example_url [1, 0] example_article, SetTimeout 2000,
         IndexUpsert example_url [1, 0] example_article, SetTimeout 4000,
         IndexUpsert example_url [1, 0] example_article]\<rparr>) =
        (Inl (Error ''URL processing failed: Vector storage failed: Failed to upsert vector to Pinecone: down''),
         world_store_down\<lparr>events :=
        [HttpFetch example_url, GenerateContent (StructurePrompt ''<html>B</html>''),
         EmbedContent ''A. B'', IndexFetch example_url,
         IndexUpsert example_url [1, 0] example_article, SetTimeout 2000,
         IndexUpsert example_url [1, 0] example_article, SetTimeout 4000,
         IndexUpsert example_url [1, 0] example_article] @
        [HttpFetch example_url, GenerateContent (StructurePrompt ''<html>B</html>''),
         EmbedContent ''A. B'', IndexFetch example_url,
         IndexUpsert example_url [1, 0] example_article, SetTimeout 2000,
         IndexUpsert example_url [1, 0] example_article, SetTimeout 4000,
         IndexUpsert example_url [1, 0] example_article]\<rparr>)"
    using ingestion_store_down [OF refl] by simp
  then have "handleKafkaMessage example_env (Some example_url)
          ([], world_store_down\<lparr>events :=
        [HttpFetch example_url, GenerateContent (StructurePrompt ''<html>B</html>''),
         EmbedContent ''A. B'', IndexFetch example_url,
         IndexUpsert example_url [1, 0] example_article, SetTimeout 2000,
         IndexUpsert example_url [1, 0] example_article, SetTimeout 4000,
         IndexUpsert example_url [1, 0] example_article]\<rparr>) =
        ([], world_store_down\<lparr>events :=
        [HttpFetch example_url, GenerateContent (StructurePrompt ''<html>B</html>''),
         EmbedContent ''A. B'', IndexFetch example_url,
         IndexUpsert example_url [1, 0] example_article, SetTimeout 2000,
         IndexUpsert example_url [1, 0] example_article, SetTimeout 4000,
         IndexUpsert example_url [1, 0] example_article] @
        [HttpFetch example_url, GenerateContent (StructurePrompt ''<html>B</html>''),
         EmbedContent ''A. B'', IndexFetch example_url,
         IndexUpsert example_url [1, 0] example_article, SetTimeout 2000,
         IndexUpsert example_url [1, 0] example_article, SetTimeout 4000,
         IndexUpsert example_url [1, 0] example_article]\<rparr>)"
    by (simp add: handleKafkaMessage_def example_message_url)
  then show ?thesis
    by (simp add: store_down_first)
qed

theorem dedup_skip_witness:
  "handleKafkaMessage example_env (Some example_url) ([example_url], example_world) =
     ([example_url], example_world) \<and>
   handleKafkaMessage example_env (Some example_url)
       (deliver example_env [None, Some example_url] ([example_url], example_world)) =
     deliver example_env [None, Some example_url] ([example_url], example_world) \<and>
   fst (handleKafkaMessage example_env (Some example_url) ([], example_world)) = [example_url] \<and>
   handleKafkaMessage example_env (Some example_url)
       (handleKafkaMessage example_env (Some example_url) ([], example_world)) =
     handleKafkaMessage example_env (Some example_url) ([], example_world)"
proof -
  have a: "message_url example_env example_url \<in> set [example_url]"
    by (simp add: example_message_url)
  have b: "message_url example_env example_url \<notin> set [] \<and>
           fst (handleUrlIngestion example_env (message_url example_env example_url) example_world) = Inr () \<and>
           length ([] :: string list) < MAX_CACHE_SIZE"
    by (simp add: example_message_url ingestion_example_world MAX_CACHE_SIZE_def)
  have c: "message_url example_env example_url \<in> set [example_url] \<and>
           length [example_url] + length [None, Some example_url] \<le> MAX_CACHE_SIZE"
    by (simp add: example_message_url MAX_CACHE_SIZE_def)
  show ?thesis
    using dedup_skip [of example_env example_url "[example_url]" example_world,
                      THEN conjunct1, THEN mp, OF a]
          dedup_skip [of example_env example_url "[]" example_world,
                      THEN conjunct2, THEN conjunct1, THEN mp, OF b]
          dedup_skip [of example_env example_url "[example_url]" example_world
                         "[None, Some example_url]",
                      THEN conjunct2, THEN conjunct2, THEN mp, OF c]
    by (simp add: example_message_url)
qed

theorem failed_ingestion_not_cached_witness:
  "fst (handleKafkaMessage example_env (Some example_url) ([], world_store_down)) = [] \<and>
   fst (handleKafkaMessage example_env (Some example_url) ([], example_world)) = [example_url] \<and>
   fst (handleUrlIngestion example_env example_url example_world) = Inr ()"
proof -
  have c0: "fst (handleKafkaMessage example_env (Some example_url) ([], example_world)) = [example_url]"
    using ingestion_example_world
    by (cases "handleUrlIngestion example_env example_url example_world")
       (simp add: handleKafkaMessage_def example_message_url cache_add_def MAX_CACHE_SIZE_def)
  then have a: "message_url example_env example_url \<notin> set [] \<and>
    message_url example_env example_url \<in>
      set (fst (handleKafkaMessage example_env (Some example_url) ([], example_world)))"
    by (simp add: example_message_url)
  have "world_store_down = world_store_down\<lparr>events := []\<rparr>"
    by (simp add: world_store_down_def example_world_def)
  from ingestion_store_down [OF this]
  have b: "message_url example_env example_url \<notin> set [] \<and>
     handleUrlIngestion example_env (message_url example_env example_url) world_store_down =
       (Inl (Error ''URL processing failed: Vector storage failed: Failed to upsert vector to Pinecone: down''),
        world_store_down\<lparr>events := [] @
               [HttpFetch example_url, GenerateContent (StructurePrompt ''<html>B</html>''),
                EmbedContent ''A. B'', IndexFetch example_url,
                IndexUpsert example_url [1, 0] example_article, SetTimeout 2000,
                IndexUpsert example_url [1, 0] example_article, SetTimeout 4000,
                IndexUpsert example_url [1, 0] example_article]\<rparr>)"
    by (simp add: example_message_url)
  show ?thesis
    using failed_ingestion_not_cached [THEN conjunct1, THEN mp, OF a]
          failed_ingestion_not_cached [THEN conjunct2, THEN mp, OF b]
          c0
    by (simp add: example_message_url)
qed

end
